theory Spec2Isabelle
  imports Main "HOL-Library.Sublist" "HOL-Library.Multiset" "HOL-Library.AList" "HOL-Library.Word"
begin

unbundle bit_operations_syntax

section \<open>The meal-planner backend (server.js)\<close>

text \<open>
  The server is five Express handlers around three external services: a text-generation
  service (\<open>model.generateContent\<close>), a document store (\<open>addDoc\<close>, \<open>getDocs\<close>) and a blob
  store (\<open>uploadBytes\<close>). Each handler is embedded as a function from the request and the
  state of the external stores to the HTTP response and the new state. What an external
  call answers (a value, or a thrown error) is not decided by the server: it is read from an
  \<open>outcomes\<close> record that is an argument of every handler, so every theorem below holds whatever
  the services answer.
\<close>

subsection \<open>JavaScript values\<close>

text \<open>
  A JavaScript number is an IEEE 754 double, kept as its 64 bits. \<open>is_zero\<close> holds of
  \<open>+0\<close> and \<open>-0\<close>, \<open>is_NaN\<close> of the NaNs (exponent all ones, fraction not zero).
\<close>

type_synonym double = "64 word"

definition is_zero :: "double \<Rightarrow> bool" where
  "is_zero d \<longleftrightarrow> d AND 0x7FFFFFFFFFFFFFFF = 0"

definition is_NaN :: "double \<Rightarrow> bool" where
  "is_NaN d \<longleftrightarrow> d AND 0x7FF0000000000000 = 0x7FF0000000000000 \<and> d AND 0x000FFFFFFFFFFFFF \<noteq> 0"

text \<open>
  The values a handler meets: what \<open>JSON.parse\<close> builds (\<open>Null\<close>, \<open>Bool\<close>, \<open>Num\<close>,
  \<open>Str\<close>, \<open>Arr\<close>, \<open>Obj\<close>), \<open>Undefined\<close> for a property that is absent, and \<open>Date\<close>
  (epoch milliseconds) for the result of \<open>new Date()\<close>. An object is the list of its own
  properties in insertion order.
\<close>

datatype jsval =
    Undefined
  | Null
  | Bool bool
  | Num double
  | Str string
  | Arr "jsval list"
  | Obj "(string \<times> jsval) list"
  | Date int

type_synonym fields = "(string \<times> jsval) list"

text \<open>A thrown value: a \<open>TypeError\<close> of the language, or an error of an external service.\<close>

datatype exn = TypeError | ServiceError string

text \<open>
  The conversions of numbers and dates to strings belong to the JavaScript runtime; the
  handlers never inspect their result, so they are parameters.
\<close>

record runtime =
  NumberToString :: "double \<Rightarrow> string"
  DateToString :: "int \<Rightarrow> string"

text \<open>\<open>!v\<close> is \<open>\<not> ToBoolean v\<close>.\<close>

fun ToBoolean :: "jsval \<Rightarrow> bool" where
  "ToBoolean Undefined = False"
| "ToBoolean Null = False"
| "ToBoolean (Bool b) = b"
| "ToBoolean (Num d) = (\<not> is_zero d \<and> \<not> is_NaN d)"
| "ToBoolean (Str s) = (s \<noteq> [])"
| "ToBoolean (Arr xs) = True"
| "ToBoolean (Obj kvs) = True"
| "ToBoolean (Date t) = True"

text \<open>
  \<open>${v}\<close> in a template literal is \<open>ToString v\<close>. An array is joined with commas, its
  \<open>undefined\<close> and \<open>null\<close> elements giving the empty string. A plain object gives
  \<open>[object Object]\<close> through \<open>Object.prototype.toString\<close>, unless it has an own property
  named \<open>toString\<close>: a value parsed from JSON is never callable, \<open>valueOf\<close> returns the
  object itself, and the conversion throws a \<open>TypeError\<close>.
\<close>

fun ToString :: "runtime \<Rightarrow> jsval \<Rightarrow> exn + string"
  and join :: "runtime \<Rightarrow> jsval list \<Rightarrow> exn + string"
  and element :: "runtime \<Rightarrow> jsval \<Rightarrow> exn + string" where
  "ToString rt Undefined = Inr ''undefined''"
| "ToString rt Null = Inr ''null''"
| "ToString rt (Bool b) = Inr (if b then ''true'' else ''false'')"
| "ToString rt (Num d) = Inr (NumberToString rt d)"
| "ToString rt (Str s) = Inr s"
| "ToString rt (Arr xs) = join rt xs"
| "ToString rt (Obj kvs) =
     (if ''toString'' \<in> fst ` set kvs then Inl TypeError else Inr ''[object Object]'')"
| "ToString rt (Date t) = Inr (DateToString rt t)"
| "join rt [] = Inr []"
| "join rt [x] = element rt x"
| "join rt (x # y # ys) =
     (case element rt x of
        Inl e \<Rightarrow> Inl e
      | Inr s \<Rightarrow> (case join rt (y # ys) of
                   Inl e \<Rightarrow> Inl e
                 | Inr r \<Rightarrow> Inr (s @ '','' @ r)))"
| "element rt Undefined = Inr []"
| "element rt Null = Inr []"
| "element rt (Bool b) = ToString rt (Bool b)"
| "element rt (Num d) = ToString rt (Num d)"
| "element rt (Str s) = ToString rt (Str s)"
| "element rt (Arr xs) = ToString rt (Arr xs)"
| "element rt (Obj kvs) = ToString rt (Obj kvs)"
| "element rt (Date t) = ToString rt (Date t)"

text \<open>
  A parsed request body is the object \<open>express.json()\<close> built: a map from property names
  to values. Reading a property that is absent gives \<open>undefined\<close>. When no body was
  parsed, \<open>req.body\<close> itself may be \<open>undefined\<close>: a handler receives a \<open>body option\<close>,
  \<open>None\<close> for \<open>undefined\<close>, and destructuring \<open>undefined\<close> throws a \<open>TypeError\<close>.
\<close>

type_synonym body = "string \<rightharpoonup> jsval"

definition property :: "body \<Rightarrow> string \<Rightarrow> jsval" where
  "property b k = (case b k of None \<Rightarrow> Undefined | Some v \<Rightarrow> v)"

text \<open>
  \<open>Date.now()\<close> is an integer number of milliseconds, far below \<open>10^21\<close>, so its
  conversion to a string is its decimal numeral.
\<close>

fun show_nat :: "nat \<Rightarrow> string" where
  "show_nat n =
     (if n < 10 then [''0123456789'' ! n]
      else show_nat (n div 10) @ [''0123456789'' ! (n mod 10)])"

declare show_nat.simps [simp del]

definition show_int :: "int \<Rightarrow> string" where
  "show_int i = (if i < 0 then ''-'' @ show_nat (nat (- i)) else show_nat (nat i))"

text \<open>
  What a decimal numeral denotes, read independently of \<open>show_int\<close>: a string of digits
  without a leading zero (the single digit \<open>0\<close> apart) denotes the number its digits spell in
  base ten; preceded by a minus sign, a numeral other than \<open>0\<close> denotes the negative; no other
  string denotes an integer.
\<close>

definition is_digit :: "char \<Rightarrow> bool" where
  "is_digit c \<longleftrightarrow> c \<in> set ''0123456789''"

definition digit_value :: "char \<Rightarrow> nat" where
  "digit_value c = of_char c - 48"

definition digits_value :: "string \<Rightarrow> nat" where
  "digits_value ds = foldl (\<lambda>v c. 10 * v + digit_value c) 0 ds"

definition numeral_digits :: "string \<Rightarrow> bool" where
  "numeral_digits ds \<longleftrightarrow> ds \<noteq> [] \<and> list_all is_digit ds \<and> (ds = ''0'' \<or> hd ds \<noteq> CHR ''0'')"

definition decimal_value :: "string \<Rightarrow> int option" where
  "decimal_value s =
     (case s of
        [] \<Rightarrow> None
      | c # ds \<Rightarrow>
          if c = CHR ''-''
          then (if numeral_digits ds \<and> ds \<noteq> ''0'' then Some (- int (digits_value ds)) else None)
          else (if numeral_digits s then Some (int (digits_value s)) else None))"

subsection \<open>HTTP responses, external calls and the state of the stores\<close>

text \<open>\<open>res.status(s).json(v)\<close>; \<open>res.json(v)\<close> answers with status 200.\<close>

record http_response =
  status :: nat
  json :: jsval

type_synonym bytes = "8 word list"

text \<open>\<open>req.file\<close> as multer's \<open>upload.single('cookbookFile')\<close> leaves it.\<close>

record multer_file =
  originalname :: string
  mimetype :: string
  buffer :: bytes

text \<open>
  The result of \<open>model.generateContent\<close>: its \<open>response.text()\<close> returns the text or throws.
\<close>

datatype gen_result = GenResult (response_text: "exn + string")

text \<open>
  Every call that leaves the handler is logged with its outcome (\<open>None\<close>: it returned,
  \<open>Some e\<close>: it threw \<open>e\<close>), and so is every \<open>console.error\<close>.
\<close>

datatype call =
    GenerateContent string
  | ResponseText
  | AddDoc string fields
  | GetDocs string
  | UploadBytes string bytes string

datatype event = External call "exn option" | ConsoleError string exn

text \<open>
  The state outside the process: the documents of every collection of the document store,
  each with its id, the blobs of the object store with their content type, and the log.
\<close>

record world =
  docs :: "string \<Rightarrow> (string \<times> fields) list"
  blobs :: "string \<rightharpoonup> (bytes \<times> string)"
  events :: "event list"

text \<open>
  What the outside answers during one request: the outcome of each external call the
  handler may make (a handler makes at most one call of each kind), and the clock at
  \<open>Date.now()\<close> and at \<open>new Date()\<close>.
\<close>

record outcomes =
  gen_outcome :: "string \<Rightarrow> exn + gen_result"
  add_outcome :: "exn + string"
  get_outcome :: "exn option"
  upload_outcome :: "exn option"
  Date_now :: int
  new_Date :: int

definition thrown :: "exn + 'a \<Rightarrow> exn option" where
  "thrown r = (case r of Inl e \<Rightarrow> Some e | Inr _ \<Rightarrow> None)"

definition log :: "event \<Rightarrow> world \<Rightarrow> world" where
  "log ev w = w\<lparr>events := events w @ [ev]\<rparr>"

text \<open>
  The external services. A call that throws leaves the stores as they were; \<open>addDoc\<close>
  adds one document under the id the store generates; \<open>getDocs\<close> returns every document of
  the collection; \<open>uploadBytes\<close> writes the blob at the path of the reference; the reference
  \<open>ref(storage, path)\<close> has the path it was given as its \<open>fullPath\<close>.
\<close>

definition generateContent :: "outcomes \<Rightarrow> string \<Rightarrow> world \<Rightarrow> (exn + gen_result) \<times> world" where
  "generateContent orc prompt w =
     (gen_outcome orc prompt, log (External (GenerateContent prompt) (thrown (gen_outcome orc prompt))) w)"

definition text_of :: "gen_result \<Rightarrow> world \<Rightarrow> (exn + string) \<times> world" where
  "text_of result w = (response_text result, log (External ResponseText (thrown (response_text result))) w)"

definition addDoc :: "outcomes \<Rightarrow> string \<Rightarrow> fields \<Rightarrow> world \<Rightarrow> (exn + string) \<times> world" where
  "addDoc orc col data w =
     (let w1 = log (External (AddDoc col data) (thrown (add_outcome orc))) w in
      case add_outcome orc of
        Inl e \<Rightarrow> (Inl e, w1)
      | Inr i \<Rightarrow> (Inr i, w1\<lparr>docs := (docs w1)(col := docs w1 col @ [(i, data)])\<rparr>))"

definition getDocs :: "outcomes \<Rightarrow> string \<Rightarrow> world \<Rightarrow> (exn + (string \<times> fields) list) \<times> world" where
  "getDocs orc col w =
     (let w1 = log (External (GetDocs col) (get_outcome orc)) w in
      case get_outcome orc of
        Some e \<Rightarrow> (Inl e, w1)
      | None \<Rightarrow> (Inr (docs w1 col), w1))"

record reference =
  fullPath :: string

definition ref :: "string \<Rightarrow> reference" where
  "ref path = \<lparr>fullPath = path\<rparr>"

definition uploadBytes :: "outcomes \<Rightarrow> reference \<Rightarrow> bytes \<Rightarrow> string \<Rightarrow> world \<Rightarrow> (exn + unit) \<times> world" where
  "uploadBytes orc r data contentType w =
     (let w1 = log (External (UploadBytes (fullPath r) data contentType) (upload_outcome orc)) w in
      case upload_outcome orc of
        Some e \<Rightarrow> (Inl e, w1)
      | None \<Rightarrow> (Inr (), w1\<lparr>blobs := (blobs w1)(fullPath r \<mapsto> (data, contentType))\<rparr>))"

subsection \<open>The handlers\<close>

definition res_json :: "jsval \<Rightarrow> http_response" where
  "res_json v = \<lparr>status = 200, json = v\<rparr>"

definition res_status_json :: "nat \<Rightarrow> jsval \<Rightarrow> http_response" where
  "res_status_json s v = \<lparr>status = s, json = v\<rparr>"

text \<open>
  Every handler is \<open>try { ... } catch (error) { console.error(label, error);
  res.status(500).json({ success: false, message }) }\<close>. The body of the \<open>try\<close> is a
  function that returns the response or the thrown value; \<open>catch\<close> is the handler block.
\<close>

definition catch :: "string \<Rightarrow> string \<Rightarrow> (exn + http_response) \<times> world \<Rightarrow> http_response \<times> world" where
  "catch label message r =
     (case r of
        (Inr res, w) \<Rightarrow> (res, w)
      | (Inl error, w) \<Rightarrow>
          (res_status_json 500 (Obj [(''success'', Bool False), (''message'', Str message)]),
           log (ConsoleError label error) w))"

text \<open>
  The template literal of \<open>/generate-plan\<close>, from the backquote that opens it to the one
  that closes it, with the four strings that replace its placeholders.
\<close>

definition prompt_text :: "string \<Rightarrow> string \<Rightarrow> string \<Rightarrow> string \<Rightarrow> string" where
  "prompt_text template cookbook dietaryNeeds specialRequests =
     [CHR 0x0A] @
     ''            Using the following meal plan as a template:'' @ [CHR 0x0A] @
     ''            --- TEMPLATE START ---'' @ [CHR 0x0A] @
     ''            '' @ template @ [CHR 0x0A] @
     ''            --- TEMPLATE END ---'' @ [CHR 0x0A] @
     [CHR 0x0A] @
     ''            Create a new one-week meal plan for a single person with the following changes:'' @ [CHR 0x0A] @
     ''            1. Cookbook: '' @ cookbook @ [CHR 0x0A] @
     ''            2. Dietary Needs: '' @ dietaryNeeds @ [CHR 0x0A] @
     ''            3. Special Requests: '' @ specialRequests @ [CHR 0x0A] @
     [CHR 0x0A] @
     ''            Respond ONLY with the complete, updated markdown for the new meal plan file. Do not include any other text or explanation.'' @ [CHR 0x0A] @
     ''        ''"

text \<open>
  Evaluating the literal converts the placeholders in the order they are written; the first
  conversion that throws ends the evaluation.
\<close>

definition prompt :: "runtime \<Rightarrow> jsval \<Rightarrow> jsval \<Rightarrow> jsval \<Rightarrow> jsval \<Rightarrow> exn + string" where
  "prompt rt template cookbook dietaryNeeds specialRequests =
     (case ToString rt template of
        Inl e \<Rightarrow> Inl e
      | Inr t \<Rightarrow>
     (case ToString rt cookbook of
        Inl e \<Rightarrow> Inl e
      | Inr c \<Rightarrow>
     (case ToString rt dietaryNeeds of
        Inl e \<Rightarrow> Inl e
      | Inr d \<Rightarrow>
     (case ToString rt specialRequests of
        Inl e \<Rightarrow> Inl e
      | Inr s \<Rightarrow> Inr (prompt_text t c d s)))))"

text \<open>1. \<open>app.post('/generate-plan', ...)\<close>\<close>

definition generate_plan_try :: "runtime \<Rightarrow> outcomes \<Rightarrow> body option \<Rightarrow> world \<Rightarrow> (exn + http_response) \<times> world" where
  "generate_plan_try rt orc req_body w =
     (case req_body of
        None \<Rightarrow> (Inl TypeError, w)
      | Some b \<Rightarrow>
          (let cookbook = property b ''cookbook'';
               dietaryNeeds = property b ''dietaryNeeds'';
               specialRequests = property b ''specialRequests'';
               template = property b ''template''
           in case prompt rt template cookbook dietaryNeeds specialRequests of
                Inl e \<Rightarrow> (Inl e, w)
              | Inr p \<Rightarrow>
                  (case generateContent orc p w of
                     (Inl e, w1) \<Rightarrow> (Inl e, w1)
                   | (Inr result, w1) \<Rightarrow>
                       (case text_of result w1 of
                          (Inl e, w2) \<Rightarrow> (Inl e, w2)
                        | (Inr text, w2) \<Rightarrow>
                            (Inr (res_json (Obj [(''success'', Bool True), (''mealPlan'', Str text)])), w2)))))"

definition generate_plan :: "runtime \<Rightarrow> outcomes \<Rightarrow> body option \<Rightarrow> world \<Rightarrow> http_response \<times> world" where
  "generate_plan rt orc req_body w =
     catch ''Error generating plan:'' ''Failed to generate meal plan.'' (generate_plan_try rt orc req_body w)"

text \<open>2. \<open>app.post('/favorites', ...)\<close>\<close>

definition post_favorites_try :: "outcomes \<Rightarrow> body option \<Rightarrow> world \<Rightarrow> (exn + http_response) \<times> world" where
  "post_favorites_try orc req_body w =
     (case req_body of
        None \<Rightarrow> (Inl TypeError, w)
      | Some b \<Rightarrow>
          (let mealPlanMarkdown = property b ''mealPlanMarkdown'' in
           if \<not> ToBoolean mealPlanMarkdown
           then (Inr (res_status_json 400
                       (Obj [(''success'', Bool False), (''message'', Str ''No meal plan content provided.'')])), w)
           else
             (case addDoc orc ''favorites''
                     [(''createdAt'', Date (new_Date orc)), (''content'', mealPlanMarkdown)] w of
                (Inl e, w1) \<Rightarrow> (Inl e, w1)
              | (Inr docRef_id, w1) \<Rightarrow>
                  (Inr (res_json (Obj [(''success'', Bool True), (''id'', Str docRef_id)])), w1))))"

definition post_favorites :: "outcomes \<Rightarrow> body option \<Rightarrow> world \<Rightarrow> http_response \<times> world" where
  "post_favorites orc req_body w =
     catch ''Error saving favorite:'' ''Failed to save favorite.'' (post_favorites_try orc req_body w)"

text \<open>
  3. \<open>app.get('/favorites', ...)\<close>. The object \<open>{ id: doc.id, ...doc.data() }\<close> has the
  property \<open>id\<close> first and then the fields of the document, a field named \<open>id\<close> replacing
  the value of the first.
\<close>

definition spread :: "fields \<Rightarrow> fields \<Rightarrow> fields" where
  "spread obj src = fold (\<lambda>(k, v). AList.update k v) src obj"

definition entry :: "string \<times> fields \<Rightarrow> jsval" where
  "entry doc = Obj (spread [(''id'', Str (fst doc))] (snd doc))"

definition get_favorites_try :: "outcomes \<Rightarrow> world \<Rightarrow> (exn + http_response) \<times> world" where
  "get_favorites_try orc w =
     (case getDocs orc ''favorites'' w of
        (Inl e, w1) \<Rightarrow> (Inl e, w1)
      | (Inr snapshot_docs, w1) \<Rightarrow>
          (Inr (res_json (Obj [(''success'', Bool True),
                               (''favorites'', Arr (map entry snapshot_docs))])), w1))"

definition get_favorites :: "outcomes \<Rightarrow> world \<Rightarrow> http_response \<times> world" where
  "get_favorites orc w =
     catch ''Error fetching favorites:'' ''Failed to fetch favorites.'' (get_favorites_try orc w)"

text \<open>4. \<open>app.post('/upload-cookbook', upload.single('cookbookFile'), ...)\<close>\<close>

definition upload_cookbook_try :: "outcomes \<Rightarrow> multer_file option \<Rightarrow> world \<Rightarrow> (exn + http_response) \<times> world" where
  "upload_cookbook_try orc req_file w =
     (case req_file of
        None \<Rightarrow>
          (Inr (res_status_json 400
                 (Obj [(''success'', Bool False), (''message'', Str ''No file uploaded.'')])), w)
      | Some file \<Rightarrow>
          (let storageRef = ref (''cookbooks/'' @ show_int (Date_now orc) @ ''_'' @ originalname file)
           in case uploadBytes orc storageRef (buffer file) (mimetype file) w of
                (Inl e, w1) \<Rightarrow> (Inl e, w1)
              | (Inr u, w1) \<Rightarrow>
                  (case addDoc orc ''cookbooks''
                          [(''name'', Str (originalname file)),
                           (''storagePath'', Str (fullPath storageRef)),
                           (''uploadedAt'', Date (new_Date orc))] w1 of
                     (Inl e, w2) \<Rightarrow> (Inl e, w2)
                   | (Inr docRef_id, w2) \<Rightarrow>
                       (Inr (res_json (Obj [(''success'', Bool True),
                                            (''message'', Str ''Cookbook uploaded successfully.'')])), w2))))"

definition upload_cookbook :: "outcomes \<Rightarrow> multer_file option \<Rightarrow> world \<Rightarrow> http_response \<times> world" where
  "upload_cookbook orc req_file w =
     catch ''Error uploading cookbook:'' ''Failed to upload cookbook.'' (upload_cookbook_try orc req_file w)"

text \<open>5. \<open>app.get('/cookbooks', ...)\<close>\<close>

definition get_cookbooks_try :: "outcomes \<Rightarrow> world \<Rightarrow> (exn + http_response) \<times> world" where
  "get_cookbooks_try orc w =
     (case getDocs orc ''cookbooks'' w of
        (Inl e, w1) \<Rightarrow> (Inl e, w1)
      | (Inr snapshot_docs, w1) \<Rightarrow>
          (Inr (res_json (Obj [(''success'', Bool True),
                               (''cookbooks'', Arr (map entry snapshot_docs))])), w1))"

definition get_cookbooks :: "outcomes \<Rightarrow> world \<Rightarrow> http_response \<times> world" where
  "get_cookbooks orc w =
     catch ''Error fetching cookbooks:'' ''Failed to fetch cookbooks.'' (get_cookbooks_try orc w)"

subsection \<open>Requests and runs\<close>

text \<open>The five routes, each with what its handler reads of the request.\<close>

datatype request =
    PostGeneratePlan "body option"
  | PostFavorites "body option"
  | GetFavorites
  | PostUploadCookbook "multer_file option"
  | GetCookbooks

fun handle :: "runtime \<Rightarrow> outcomes \<Rightarrow> request \<Rightarrow> world \<Rightarrow> http_response \<times> world" where
  "handle rt orc (PostGeneratePlan req_body) w = generate_plan rt orc req_body w"
| "handle rt orc (PostFavorites req_body) w = post_favorites orc req_body w"
| "handle rt orc GetFavorites w = get_favorites orc w"
| "handle rt orc (PostUploadCookbook f) w = upload_cookbook orc f w"
| "handle rt orc GetCookbooks w = get_cookbooks orc w"

text \<open>
  A run serves a list of requests one after the other, each with the outcomes of its own
  external calls, and collects the responses.
\<close>

fun serve :: "runtime \<Rightarrow> (outcomes \<times> request) list \<Rightarrow> world \<Rightarrow> http_response list \<times> world" where
  "serve rt [] w = ([], w)"
| "serve rt ((orc, req) # rest) w =
     (case handle rt orc req w of
        (res, w1) \<Rightarrow> (case serve rt rest w1 of (ress, w2) \<Rightarrow> (res # ress, w2)))"

definition init_world :: world where
  "init_world = \<lparr>docs = (\<lambda>col. []), blobs = Map.empty, events = []\<rparr>"

text \<open>The events a handler added to the log.\<close>

definition new_events :: "world \<Rightarrow> world \<Rightarrow> event list" where
  "new_events w w' = drop (length (events w)) (events w')"

subsection \<open>Observations on the log\<close>

text \<open>The external calls among a list of events, in order, each with its outcome.\<close>

fun external_calls :: "event list \<Rightarrow> (call \<times> exn option) list" where
  "external_calls [] = []"
| "external_calls (External c r # evs) = (c, r) # external_calls evs"
| "external_calls (ConsoleError l e # evs) = external_calls evs"

text \<open>The message of the \<open>catch\<close> block of each route.\<close>

definition generic_message :: "request \<Rightarrow> string" where
  "generic_message req =
     (case req of
        PostGeneratePlan b \<Rightarrow> ''Failed to generate meal plan.''
      | PostFavorites b \<Rightarrow> ''Failed to save favorite.''
      | GetFavorites \<Rightarrow> ''Failed to fetch favorites.''
      | PostUploadCookbook f \<Rightarrow> ''Failed to upload cookbook.''
      | GetCookbooks \<Rightarrow> ''Failed to fetch cookbooks.'')"

text \<open>
  A record of the collection \<open>cookbooks\<close> is backed when its \<open>storagePath\<close> is a string, the
  blob store holds a blob at that path, and the log has an \<open>uploadBytes\<close> at that path that
  returned.
\<close>

fun is_upload_of :: "string \<Rightarrow> event \<Rightarrow> bool" where
  "is_upload_of k (External (UploadBytes k' data ct) None) = (k' = k)"
| "is_upload_of k ev = False"

definition backed :: "world \<Rightarrow> string \<times> fields \<Rightarrow> bool" where
  "backed w doc =
     (case map_of (snd doc) ''storagePath'' of
        Some (Str k) \<Rightarrow> blobs w k \<noteq> None \<and> list_ex (is_upload_of k) (events w)
      | _ \<Rightarrow> False)"

definition records_backed :: "world \<Rightarrow> bool" where
  "records_backed w = list_all (backed w) (docs w ''cookbooks'')"

text \<open>
  Reading a property of a response or of a listed entry, and the entry a listing is expected
  to hold for a save: the id the save answered, the date of the save and the saved content.
\<close>

fun property_of :: "jsval \<Rightarrow> string \<Rightarrow> jsval" where
  "property_of (Obj kvs) k = (case map_of kvs k of None \<Rightarrow> Undefined | Some v \<Rightarrow> v)"
| "property_of v k = Undefined"

definition saved_content :: "body option \<Rightarrow> jsval" where
  "saved_content req_body =
     (case req_body of None \<Rightarrow> Undefined | Some b \<Rightarrow> property b ''mealPlanMarkdown'')"

definition saved_entry :: "(outcomes \<times> body option) \<times> http_response \<Rightarrow> jsval" where
  "saved_entry x =
     Obj [(''id'', property_of (json (snd x)) ''id''),
          (''createdAt'', Date (new_Date (fst (fst x)))),
          (''content'', saved_content (snd (fst x)))]"

subsection \<open>Sample inputs\<close>

text \<open>
  A runtime, the outcomes of a request during which every service answers, and request
  bodies, for evaluating the handlers at concrete inputs.
\<close>

definition example_runtime :: runtime where
  "example_runtime = \<lparr>NumberToString = (\<lambda>d. ''1''), DateToString = (\<lambda>t. ''now'')\<rparr>"

definition all_succeed :: outcomes where
  "all_succeed = \<lparr>gen_outcome = (\<lambda>p. Inr (GenResult (Inr ''# Plan B''))), add_outcome = Inr ''doc1'',
     get_outcome = None, upload_outcome = None, Date_now = 1700000000000, new_Date = 1700000000007\<rparr>"

definition string_body :: body where
  "string_body = [''template'' \<mapsto> Str ''# Monday'', ''cookbook'' \<mapsto> Str ''Joy of Cooking'',
     ''dietaryNeeds'' \<mapsto> Str ''vegan'', ''specialRequests'' \<mapsto> Str ''<no> \"nuts\"'']"


definition plan_a_body :: body where
  "plan_a_body = [''mealPlanMarkdown'' \<mapsto> Str ''# Plan A'']"

definition zero_markdown_body :: body where
  "zero_markdown_body = [''mealPlanMarkdown'' \<mapsto> Num 0]"

definition soup_pdf :: multer_file where
  "soup_pdf = \<lparr>originalname = ''soup.pdf'', mimetype = ''application/pdf'', buffer = [0x25, 0x50, 0x44, 0x46]\<rparr>"

definition record_write_fails :: outcomes where
  "record_write_fails = \<lparr>gen_outcome = (\<lambda>p. Inl (ServiceError ''unavailable'')),
     add_outcome = Inl (ServiceError ''permission-denied''), get_outcome = Some (ServiceError ''unavailable''),
     upload_outcome = None, Date_now = 1700000000000, new_Date = 1700000000007\<rparr>"

definition blob_write_fails :: outcomes where
  "blob_write_fails = \<lparr>gen_outcome = (\<lambda>p. Inl (ServiceError ''unavailable'')),
     add_outcome = Inr ''doc1'', get_outcome = None,
     upload_outcome = Some (ServiceError ''storage/unauthorized''), Date_now = 1700000000000,
     new_Date = 1700000000007\<rparr>"

definition toString_body :: body where
  "toString_body = [''cookbook'' \<mapsto> Obj [(''toString'', Null)]]"

definition sparse_body :: body where
  "sparse_body = [''cookbook'' \<mapsto> Str ''Joy of Cooking'', ''dietaryNeeds'' \<mapsto> Null]"

definition second_save :: outcomes where
  "second_save = \<lparr>gen_outcome = (\<lambda>p. Inr (GenResult (Inr ''# Plan B''))), add_outcome = Inr ''doc2'',
     get_outcome = None, upload_outcome = None, Date_now = 1700000000100, new_Date = 1700000000107\<rparr>"

definition plan_b_body :: body where
  "plan_b_body = [''mealPlanMarkdown'' \<mapsto> Str ''# Plan B'']"

section \<open>What each handler does, outcome by outcome\<close>

lemmas handler_defs =
  catch_def log_def thrown_def res_json_def res_status_json_def Let_def
  generateContent_def text_of_def addDoc_def getDocs_def uploadBytes_def ref_def

lemma new_events_append: "events w' = events w @ evs \<Longrightarrow> new_events w w' = evs"
  by (simp add: new_events_def)

text \<open>The four ways \<open>/upload-cookbook\<close> ends.\<close>

lemma upload_none:
  "upload_cookbook orc None w =
     (\<lparr>status = 400, json = Obj [(''success'', Bool False), (''message'', Str ''No file uploaded.'')]\<rparr>, w)"
  by (simp add: upload_cookbook_def upload_cookbook_try_def handler_defs)

lemma upload_blob_fails:
  assumes "upload_outcome orc = Some e"
  shows "fst (upload_cookbook orc (Some file) w) =
           \<lparr>status = 500, json = Obj [(''success'', Bool False), (''message'', Str ''Failed to upload cookbook.'')]\<rparr>"
    and "docs (snd (upload_cookbook orc (Some file) w)) = docs w"
    and "blobs (snd (upload_cookbook orc (Some file) w)) = blobs w"
    and "events (snd (upload_cookbook orc (Some file) w)) = events w @
           [External (UploadBytes (''cookbooks/'' @ show_int (Date_now orc) @ ''_'' @ originalname file)
                        (buffer file) (mimetype file)) (Some e),
            ConsoleError ''Error uploading cookbook:'' e]"
  using assms by (simp_all add: upload_cookbook_def upload_cookbook_try_def handler_defs)

lemma upload_record_fails:
  assumes "upload_outcome orc = None" "add_outcome orc = Inl e"
  shows "fst (upload_cookbook orc (Some file) w) =
           \<lparr>status = 500, json = Obj [(''success'', Bool False), (''message'', Str ''Failed to upload cookbook.'')]\<rparr>"
    and "docs (snd (upload_cookbook orc (Some file) w)) = docs w"
    and "blobs (snd (upload_cookbook orc (Some file) w)) =
           (blobs w)(''cookbooks/'' @ show_int (Date_now orc) @ ''_'' @ originalname file \<mapsto> (buffer file, mimetype file))"
    and "events (snd (upload_cookbook orc (Some file) w)) = events w @
           [External (UploadBytes (''cookbooks/'' @ show_int (Date_now orc) @ ''_'' @ originalname file)
                        (buffer file) (mimetype file)) None,
            External (AddDoc ''cookbooks''
                        [(''name'', Str (originalname file)),
                         (''storagePath'', Str (''cookbooks/'' @ show_int (Date_now orc) @ ''_'' @ originalname file)),
                         (''uploadedAt'', Date (new_Date orc))]) (Some e),
            ConsoleError ''Error uploading cookbook:'' e]"
  using assms by (simp_all add: upload_cookbook_def upload_cookbook_try_def handler_defs)

lemma upload_ok:
  assumes "upload_outcome orc = None" "add_outcome orc = Inr i"
  shows "fst (upload_cookbook orc (Some file) w) =
           \<lparr>status = 200, json = Obj [(''success'', Bool True), (''message'', Str ''Cookbook uploaded successfully.'')]\<rparr>"
    and "docs (snd (upload_cookbook orc (Some file) w)) =
           (docs w)(''cookbooks'' := docs w ''cookbooks'' @
              [(i, [(''name'', Str (originalname file)),
                    (''storagePath'', Str (''cookbooks/'' @ show_int (Date_now orc) @ ''_'' @ originalname file)),
                    (''uploadedAt'', Date (new_Date orc))])])"
    and "blobs (snd (upload_cookbook orc (Some file) w)) =
           (blobs w)(''cookbooks/'' @ show_int (Date_now orc) @ ''_'' @ originalname file \<mapsto> (buffer file, mimetype file))"
    and "events (snd (upload_cookbook orc (Some file) w)) = events w @
           [External (UploadBytes (''cookbooks/'' @ show_int (Date_now orc) @ ''_'' @ originalname file)
                        (buffer file) (mimetype file)) None,
            External (AddDoc ''cookbooks''
                        [(''name'', Str (originalname file)),
                         (''storagePath'', Str (''cookbooks/'' @ show_int (Date_now orc) @ ''_'' @ originalname file)),
                         (''uploadedAt'', Date (new_Date orc))]) None]"
  using assms by (simp_all add: upload_cookbook_def upload_cookbook_try_def handler_defs)

text \<open>The three ways \<open>POST /favorites\<close> ends with a parsed body.\<close>

lemma favorites_falsy:
  assumes "\<not> ToBoolean (property b ''mealPlanMarkdown'')"
  shows "post_favorites orc (Some b) w =
     (\<lparr>status = 400, json = Obj [(''success'', Bool False), (''message'', Str ''No meal plan content provided.'')]\<rparr>, w)"
  using assms by (simp add: post_favorites_def post_favorites_try_def handler_defs)

lemma favorites_store_fails:
  assumes "ToBoolean (property b ''mealPlanMarkdown'')" "add_outcome orc = Inl e"
  shows "fst (post_favorites orc (Some b) w) =
           \<lparr>status = 500, json = Obj [(''success'', Bool False), (''message'', Str ''Failed to save favorite.'')]\<rparr>"
    and "docs (snd (post_favorites orc (Some b) w)) = docs w"
    and "blobs (snd (post_favorites orc (Some b) w)) = blobs w"
    and "events (snd (post_favorites orc (Some b) w)) = events w @
           [External (AddDoc ''favorites''
                        [(''createdAt'', Date (new_Date orc)), (''content'', property b ''mealPlanMarkdown'')]) (Some e),
            ConsoleError ''Error saving favorite:'' e]"
  using assms by (simp_all add: post_favorites_def post_favorites_try_def handler_defs)

lemma favorites_ok:
  assumes "ToBoolean (property b ''mealPlanMarkdown'')" "add_outcome orc = Inr i"
  shows "fst (post_favorites orc (Some b) w) =
           \<lparr>status = 200, json = Obj [(''success'', Bool True), (''id'', Str i)]\<rparr>"
    and "docs (snd (post_favorites orc (Some b) w)) =
           (docs w)(''favorites'' := docs w ''favorites'' @
              [(i, [(''createdAt'', Date (new_Date orc)), (''content'', property b ''mealPlanMarkdown'')])])"
    and "blobs (snd (post_favorites orc (Some b) w)) = blobs w"
    and "events (snd (post_favorites orc (Some b) w)) = events w @
           [External (AddDoc ''favorites''
                        [(''createdAt'', Date (new_Date orc)), (''content'', property b ''mealPlanMarkdown'')]) None]"
  using assms by (simp_all add: post_favorites_def post_favorites_try_def handler_defs)

text \<open>The two listings.\<close>

lemma list_fails:
  assumes "get_outcome orc = Some e"
  shows "fst (get_favorites orc w) =
           \<lparr>status = 500, json = Obj [(''success'', Bool False), (''message'', Str ''Failed to fetch favorites.'')]\<rparr>"
    and "docs (snd (get_favorites orc w)) = docs w"
    and "blobs (snd (get_favorites orc w)) = blobs w"
    and "events (snd (get_favorites orc w)) = events w @
           [External (GetDocs ''favorites'') (Some e), ConsoleError ''Error fetching favorites:'' e]"
    and "fst (get_cookbooks orc w) =
           \<lparr>status = 500, json = Obj [(''success'', Bool False), (''message'', Str ''Failed to fetch cookbooks.'')]\<rparr>"
    and "docs (snd (get_cookbooks orc w)) = docs w"
    and "blobs (snd (get_cookbooks orc w)) = blobs w"
    and "events (snd (get_cookbooks orc w)) = events w @
           [External (GetDocs ''cookbooks'') (Some e), ConsoleError ''Error fetching cookbooks:'' e]"
  using assms by (simp_all add: get_favorites_def get_favorites_try_def get_cookbooks_def get_cookbooks_try_def handler_defs)

lemma list_ok:
  assumes "get_outcome orc = None"
  shows "fst (get_favorites orc w) =
           \<lparr>status = 200, json = Obj [(''success'', Bool True), (''favorites'', Arr (map entry (docs w ''favorites'')))]\<rparr>"
    and "docs (snd (get_favorites orc w)) = docs w"
    and "blobs (snd (get_favorites orc w)) = blobs w"
    and "events (snd (get_favorites orc w)) = events w @ [External (GetDocs ''favorites'') None]"
    and "fst (get_cookbooks orc w) =
           \<lparr>status = 200, json = Obj [(''success'', Bool True), (''cookbooks'', Arr (map entry (docs w ''cookbooks'')))]\<rparr>"
    and "docs (snd (get_cookbooks orc w)) = docs w"
    and "blobs (snd (get_cookbooks orc w)) = blobs w"
    and "events (snd (get_cookbooks orc w)) = events w @ [External (GetDocs ''cookbooks'') None]"
  using assms by (simp_all add: get_favorites_def get_favorites_try_def get_cookbooks_def get_cookbooks_try_def handler_defs)

text \<open>Without a parsed body, the destructuring throws before anything else happens.\<close>

lemma plan_no_body:
  shows "fst (generate_plan rt orc None w) =
           \<lparr>status = 500, json = Obj [(''success'', Bool False), (''message'', Str ''Failed to generate meal plan.'')]\<rparr>"
    and "docs (snd (generate_plan rt orc None w)) = docs w"
    and "blobs (snd (generate_plan rt orc None w)) = blobs w"
    and "events (snd (generate_plan rt orc None w)) = events w @ [ConsoleError ''Error generating plan:'' TypeError]"
  by (simp_all add: generate_plan_def generate_plan_try_def handler_defs)

lemma favorites_no_body:
  shows "fst (post_favorites orc None w) =
           \<lparr>status = 500, json = Obj [(''success'', Bool False), (''message'', Str ''Failed to save favorite.'')]\<rparr>"
    and "docs (snd (post_favorites orc None w)) = docs w"
    and "blobs (snd (post_favorites orc None w)) = blobs w"
    and "events (snd (post_favorites orc None w)) = events w @ [ConsoleError ''Error saving favorite:'' TypeError]"
  by (simp_all add: post_favorites_def post_favorites_try_def handler_defs)

text \<open>The four ways \<open>/generate-plan\<close> ends with a parsed body.\<close>

lemma plan_prompt_throws:
  assumes "prompt rt (property b ''template'') (property b ''cookbook'') (property b ''dietaryNeeds'')
             (property b ''specialRequests'') = Inl e"
  shows "fst (generate_plan rt orc (Some b) w) =
           \<lparr>status = 500, json = Obj [(''success'', Bool False), (''message'', Str ''Failed to generate meal plan.'')]\<rparr>"
    and "docs (snd (generate_plan rt orc (Some b) w)) = docs w"
    and "blobs (snd (generate_plan rt orc (Some b) w)) = blobs w"
    and "events (snd (generate_plan rt orc (Some b) w)) = events w @ [ConsoleError ''Error generating plan:'' e]"
  using assms by (simp_all add: generate_plan_def generate_plan_try_def handler_defs)

lemma plan_service_throws:
  assumes "prompt rt (property b ''template'') (property b ''cookbook'') (property b ''dietaryNeeds'')
             (property b ''specialRequests'') = Inr p"
    and "gen_outcome orc p = Inl e"
  shows "fst (generate_plan rt orc (Some b) w) =
           \<lparr>status = 500, json = Obj [(''success'', Bool False), (''message'', Str ''Failed to generate meal plan.'')]\<rparr>"
    and "docs (snd (generate_plan rt orc (Some b) w)) = docs w"
    and "blobs (snd (generate_plan rt orc (Some b) w)) = blobs w"
    and "events (snd (generate_plan rt orc (Some b) w)) = events w @
           [External (GenerateContent p) (Some e), ConsoleError ''Error generating plan:'' e]"
  using assms by (simp_all add: generate_plan_def generate_plan_try_def handler_defs)

lemma plan_text_throws:
  assumes "prompt rt (property b ''template'') (property b ''cookbook'') (property b ''dietaryNeeds'')
             (property b ''specialRequests'') = Inr p"
    and "gen_outcome orc p = Inr result" and "response_text result = Inl e"
  shows "fst (generate_plan rt orc (Some b) w) =
           \<lparr>status = 500, json = Obj [(''success'', Bool False), (''message'', Str ''Failed to generate meal plan.'')]\<rparr>"
    and "docs (snd (generate_plan rt orc (Some b) w)) = docs w"
    and "blobs (snd (generate_plan rt orc (Some b) w)) = blobs w"
    and "events (snd (generate_plan rt orc (Some b) w)) = events w @
           [External (GenerateContent p) None, External ResponseText (Some e),
            ConsoleError ''Error generating plan:'' e]"
  using assms by (simp_all add: generate_plan_def generate_plan_try_def handler_defs)

lemma plan_ok:
  assumes "prompt rt (property b ''template'') (property b ''cookbook'') (property b ''dietaryNeeds'')
             (property b ''specialRequests'') = Inr p"
    and "gen_outcome orc p = Inr result" and "response_text result = Inr text"
  shows "fst (generate_plan rt orc (Some b) w) =
           \<lparr>status = 200, json = Obj [(''success'', Bool True), (''mealPlan'', Str text)]\<rparr>"
    and "docs (snd (generate_plan rt orc (Some b) w)) = docs w"
    and "blobs (snd (generate_plan rt orc (Some b) w)) = blobs w"
    and "events (snd (generate_plan rt orc (Some b) w)) = events w @
           [External (GenerateContent p) None, External ResponseText None]"
  using assms by (simp_all add: generate_plan_def generate_plan_try_def handler_defs)

lemma plan_first_event:
  assumes "prompt rt (property b ''template'') (property b ''cookbook'') (property b ''dietaryNeeds'')
             (property b ''specialRequests'') = Inr p"
  shows "take 1 (new_events w (snd (generate_plan rt orc (Some b) w))) =
           [External (GenerateContent p) (thrown (gen_outcome orc p))]"
proof (cases "gen_outcome orc p")
  case (Inl e)
  then show ?thesis
    using plan_service_throws(4)[OF assms Inl, of w] by (simp add: new_events_def thrown_def)
next
  case result: (Inr result)
  show ?thesis
  proof (cases "response_text result")
    case (Inl e)
    then show ?thesis
      using plan_text_throws(4)[OF assms result Inl, of w] result by (simp add: new_events_def thrown_def)
  next
    case (Inr plan)
    then show ?thesis
      using plan_ok(4)[OF assms result Inr, of w] result by (simp add: new_events_def thrown_def)
  qed
qed

text \<open>Each placeholder of the prompt holds its string as it is.\<close>

lemma prompt_text_template: "sublist t (prompt_text t c d s)"
proof -
  have "\<exists>ps ss. prompt_text t c d s = ps @ t @ ss"
    unfolding prompt_text_def by (metis append.assoc)
  then show ?thesis by (simp add: sublist_def)
qed

lemma prompt_text_cookbook: "sublist c (prompt_text t c d s)"
proof -
  have "\<exists>ps ss. prompt_text t c d s = ps @ c @ ss"
    unfolding prompt_text_def by (metis append.assoc)
  then show ?thesis by (simp add: sublist_def)
qed

lemma prompt_text_dietaryNeeds: "sublist d (prompt_text t c d s)"
proof -
  have "\<exists>ps ss. prompt_text t c d s = ps @ d @ ss"
    unfolding prompt_text_def by (metis append.assoc)
  then show ?thesis by (simp add: sublist_def)
qed

lemma prompt_text_specialRequests: "sublist s (prompt_text t c d s)"
proof -
  have "\<exists>ps ss. prompt_text t c d s = ps @ s @ ss"
    unfolding prompt_text_def by (metis append.assoc)
  then show ?thesis by (simp add: sublist_def)
qed

text \<open>
  When an external call throws, the handler answers with the envelope of its \<open>catch\<close>
  block, and the call that threw is the last external call of the request.
\<close>

lemma failure_generate_plan_parsed:
  assumes "External c (Some e) \<in> set (new_events w (snd (generate_plan rt orc (Some b) w)))"
  shows "fst (generate_plan rt orc (Some b) w) =
           \<lparr>status = 500, json = Obj [(''success'', Bool False), (''message'', Str ''Failed to generate meal plan.'')]\<rparr>
       \<and> external_calls (new_events w (snd (generate_plan rt orc (Some b) w))) \<noteq> []
       \<and> last (external_calls (new_events w (snd (generate_plan rt orc (Some b) w)))) = (c, Some e)
       \<and> (\<forall>x \<in> set (butlast (external_calls (new_events w (snd (generate_plan rt orc (Some b) w))))).
             snd x = None \<and> fst x \<noteq> c)"
proof (cases "prompt rt (property b ''template'') (property b ''cookbook'') (property b ''dietaryNeeds'')
             (property b ''specialRequests'')")
  case (Inl e')
  then show ?thesis
    using assms plan_prompt_throws(4)[OF Inl, of orc w] by (simp add: new_events_def)
next
  case p: (Inr p)
  show ?thesis
  proof (cases "gen_outcome orc p")
    case (Inl e')
    then show ?thesis
      using assms plan_service_throws(1,4)[OF p Inl, of w] by (auto simp add: new_events_def)
  next
    case result: (Inr result)
    show ?thesis
    proof (cases "response_text result")
      case (Inl e')
      then show ?thesis
        using assms plan_text_throws(1,4)[OF p result Inl, of w] by (auto simp add: new_events_def)
    next
      case (Inr plan)
      then show ?thesis
        using assms plan_ok(4)[OF p result Inr, of w] by (simp add: new_events_def)
    qed
  qed
qed

lemma failure_generate_plan:
  assumes "External c (Some e) \<in> set (new_events w (snd (generate_plan rt orc req_body w)))"
  shows "fst (generate_plan rt orc req_body w) =
           \<lparr>status = 500, json = Obj [(''success'', Bool False), (''message'', Str ''Failed to generate meal plan.'')]\<rparr>
       \<and> external_calls (new_events w (snd (generate_plan rt orc req_body w))) \<noteq> []
       \<and> last (external_calls (new_events w (snd (generate_plan rt orc req_body w)))) = (c, Some e)
       \<and> (\<forall>x \<in> set (butlast (external_calls (new_events w (snd (generate_plan rt orc req_body w))))).
             snd x = None \<and> fst x \<noteq> c)"
proof (cases req_body)
  case None
  then show ?thesis using assms plan_no_body(4)[of rt orc w] by (simp add: new_events_def)
next
  case (Some b)
  then show ?thesis using assms failure_generate_plan_parsed[of c e w rt orc b] by simp
qed

lemma failure_post_favorites_parsed:
  assumes "External c (Some e) \<in> set (new_events w (snd (post_favorites orc (Some b) w)))"
  shows "fst (post_favorites orc (Some b) w) =
           \<lparr>status = 500, json = Obj [(''success'', Bool False), (''message'', Str ''Failed to save favorite.'')]\<rparr>
       \<and> external_calls (new_events w (snd (post_favorites orc (Some b) w))) \<noteq> []
       \<and> last (external_calls (new_events w (snd (post_favorites orc (Some b) w)))) = (c, Some e)
       \<and> (\<forall>x \<in> set (butlast (external_calls (new_events w (snd (post_favorites orc (Some b) w))))).
             snd x = None \<and> fst x \<noteq> c)"
proof (cases "ToBoolean (property b ''mealPlanMarkdown'')")
  case False
  then show ?thesis
    using assms favorites_falsy[OF False, of orc w] by (simp add: new_events_def)
next
  case True
  show ?thesis
  proof (cases "add_outcome orc")
    case (Inl e')
    then show ?thesis
      using assms favorites_store_fails(1,4)[OF True Inl, of w] by (auto simp add: new_events_def)
  next
    case (Inr i)
    then show ?thesis
      using assms favorites_ok(4)[OF True Inr, of w] by (simp add: new_events_def)
  qed
qed

lemma failure_post_favorites:
  assumes "External c (Some e) \<in> set (new_events w (snd (post_favorites orc req_body w)))"
  shows "fst (post_favorites orc req_body w) =
           \<lparr>status = 500, json = Obj [(''success'', Bool False), (''message'', Str ''Failed to save favorite.'')]\<rparr>
       \<and> external_calls (new_events w (snd (post_favorites orc req_body w))) \<noteq> []
       \<and> last (external_calls (new_events w (snd (post_favorites orc req_body w)))) = (c, Some e)
       \<and> (\<forall>x \<in> set (butlast (external_calls (new_events w (snd (post_favorites orc req_body w))))).
             snd x = None \<and> fst x \<noteq> c)"
proof (cases req_body)
  case None
  then show ?thesis using assms favorites_no_body(4)[of orc w] by (simp add: new_events_def)
next
  case (Some b)
  then show ?thesis using assms failure_post_favorites_parsed[of c e w orc b] by simp
qed

lemma failure_get_favorites:
  assumes "External c (Some e) \<in> set (new_events w (snd (get_favorites orc w)))"
  shows "fst (get_favorites orc w) =
           \<lparr>status = 500, json = Obj [(''success'', Bool False), (''message'', Str ''Failed to fetch favorites.'')]\<rparr>
       \<and> external_calls (new_events w (snd (get_favorites orc w))) \<noteq> []
       \<and> last (external_calls (new_events w (snd (get_favorites orc w)))) = (c, Some e)
       \<and> (\<forall>x \<in> set (butlast (external_calls (new_events w (snd (get_favorites orc w))))).
             snd x = None \<and> fst x \<noteq> c)"
proof (cases "get_outcome orc")
  case None
  then show ?thesis
    using assms list_ok(4)[OF None, of w] by (simp add: new_events_def)
next
  case (Some e')
  then show ?thesis
    using assms list_fails(1,4)[OF Some, of w] by (auto simp add: new_events_def)
qed

lemma failure_get_cookbooks:
  assumes "External c (Some e) \<in> set (new_events w (snd (get_cookbooks orc w)))"
  shows "fst (get_cookbooks orc w) =
           \<lparr>status = 500, json = Obj [(''success'', Bool False), (''message'', Str ''Failed to fetch cookbooks.'')]\<rparr>
       \<and> external_calls (new_events w (snd (get_cookbooks orc w))) \<noteq> []
       \<and> last (external_calls (new_events w (snd (get_cookbooks orc w)))) = (c, Some e)
       \<and> (\<forall>x \<in> set (butlast (external_calls (new_events w (snd (get_cookbooks orc w))))).
             snd x = None \<and> fst x \<noteq> c)"
proof (cases "get_outcome orc")
  case None
  then show ?thesis
    using assms list_ok(8)[OF None, of w] by (simp add: new_events_def)
next
  case (Some e')
  then show ?thesis
    using assms list_fails(5,8)[OF Some, of w] by (auto simp add: new_events_def)
qed

lemma failure_upload_cookbook:
  assumes "External c (Some e) \<in> set (new_events w (snd (upload_cookbook orc f w)))"
  shows "fst (upload_cookbook orc f w) =
           \<lparr>status = 500, json = Obj [(''success'', Bool False), (''message'', Str ''Failed to upload cookbook.'')]\<rparr>
       \<and> external_calls (new_events w (snd (upload_cookbook orc f w))) \<noteq> []
       \<and> last (external_calls (new_events w (snd (upload_cookbook orc f w)))) = (c, Some e)
       \<and> (\<forall>x \<in> set (butlast (external_calls (new_events w (snd (upload_cookbook orc f w))))).
             snd x = None \<and> fst x \<noteq> c)"
proof (cases f)
  case None
  then show ?thesis
    using assms upload_none[of orc w] by (simp add: new_events_def)
next
  case (Some upl)
  show ?thesis
  proof (cases "upload_outcome orc")
    case blob_fails: (Some e')
    then show ?thesis
      using assms upload_blob_fails(1,4)[OF blob_fails, of upl w] Some by (auto simp add: new_events_def)
  next
    case blob_ok: None
    show ?thesis
    proof (cases "add_outcome orc")
      case (Inl e')
      then show ?thesis
        using assms upload_record_fails(1,4)[OF blob_ok Inl, of upl w] Some by (auto simp add: new_events_def)
    next
      case (Inr i)
      then show ?thesis
        using assms upload_ok(4)[OF blob_ok Inr, of upl w] Some by (simp add: new_events_def)
    qed
  qed
qed

section \<open>Records of cookbooks are backed by blobs\<close>

text \<open>
  Blobs are never removed and the log only grows, so a backed record stays backed; the only
  handler that adds a record to \<open>cookbooks\<close> adds it after the blob of its path was written.
\<close>

lemma backed_mono:
  assumes "backed w doc" and "\<And>k. blobs w k \<noteq> None \<Longrightarrow> blobs w' k \<noteq> None"
    and "events w' = events w @ evs"
  shows "backed w' doc"
  using assms by (auto simp add: backed_def list_ex_iff split: option.splits jsval.splits)

lemma records_backed_step:
  assumes "records_backed w" and "\<And>k. blobs w k \<noteq> None \<Longrightarrow> blobs w' k \<noteq> None"
    and "events w' = events w @ evs"
    and "docs w' ''cookbooks'' = docs w ''cookbooks'' @ new" and "list_all (backed w') new"
  shows "records_backed w'"
  using assms backed_mono[of w _ w' evs] by (auto simp add: records_backed_def list_all_iff)

lemma upload_cookbook_keeps_backed:
  assumes "records_backed w"
  shows "records_backed (snd (upload_cookbook orc f w))"
proof (cases f)
  case None
  then show ?thesis using assms by (simp add: upload_none)
next
  case (Some upl)
  show ?thesis
  proof (cases "upload_outcome orc")
    case blob_fails: (Some e)
    show ?thesis
      unfolding Some
      by (rule records_backed_step[OF assms _ upload_blob_fails(4)[OF blob_fails], where new = "[]"])
        (simp_all add: upload_blob_fails[OF blob_fails])
  next
    case blob_ok: None
    show ?thesis
    proof (cases "add_outcome orc")
      case (Inl e)
      show ?thesis
        unfolding Some
        by (rule records_backed_step[OF assms _ upload_record_fails(4)[OF blob_ok Inl], where new = "[]"])
          (simp_all add: upload_record_fails[OF blob_ok Inl])
    next
      case (Inr i)
      show ?thesis
        unfolding Some
        by (rule records_backed_step[OF assms _ upload_ok(4)[OF blob_ok Inr],
              where new = "[(i, [(''name'', Str (originalname upl)),
                    (''storagePath'', Str (''cookbooks/'' @ show_int (Date_now orc) @ ''_'' @ originalname upl)),
                    (''uploadedAt'', Date (new_Date orc))])]"])
          (simp_all add: upload_ok[OF blob_ok Inr] backed_def)
    qed
  qed
qed

lemma generate_plan_frame_parsed:
  "blobs (snd (generate_plan rt orc (Some b) w)) = blobs w \<and> docs (snd (generate_plan rt orc (Some b) w)) = docs w \<and>
   (\<exists>evs. events (snd (generate_plan rt orc (Some b) w)) = events w @ evs)"
proof (cases "prompt rt (property b ''template'') (property b ''cookbook'') (property b ''dietaryNeeds'')
             (property b ''specialRequests'')")
  case (Inl e)
  then show ?thesis by (simp add: plan_prompt_throws)
next
  case p: (Inr p)
  show ?thesis
  proof (cases "gen_outcome orc p")
    case (Inl e)
    then show ?thesis by (simp add: plan_service_throws[OF p])
  next
    case result: (Inr result)
    show ?thesis
    proof (cases "response_text result")
      case (Inl e)
      then show ?thesis by (simp add: plan_text_throws[OF p result])
    next
      case (Inr plan)
      then show ?thesis by (simp add: plan_ok[OF p result])
    qed
  qed
qed

lemma generate_plan_frame:
  "blobs (snd (generate_plan rt orc req_body w)) = blobs w \<and> docs (snd (generate_plan rt orc req_body w)) = docs w \<and>
   (\<exists>evs. events (snd (generate_plan rt orc req_body w)) = events w @ evs)"
proof (cases req_body)
  case None
  then show ?thesis by (simp add: plan_no_body)
next
  case (Some b)
  then show ?thesis using generate_plan_frame_parsed[of rt orc b w] by simp
qed

lemma post_favorites_frame_parsed:
  "blobs (snd (post_favorites orc (Some b) w)) = blobs w \<and>
   docs (snd (post_favorites orc (Some b) w)) ''cookbooks'' = docs w ''cookbooks'' \<and>
   (\<exists>evs. events (snd (post_favorites orc (Some b) w)) = events w @ evs)"
proof (cases "ToBoolean (property b ''mealPlanMarkdown'')")
  case False
  then show ?thesis by (simp add: favorites_falsy)
next
  case True
  show ?thesis
  proof (cases "add_outcome orc")
    case (Inl e)
    then show ?thesis by (simp add: favorites_store_fails[OF True])
  next
    case (Inr i)
    then show ?thesis by (simp add: favorites_ok[OF True])
  qed
qed

lemma post_favorites_frame:
  "blobs (snd (post_favorites orc req_body w)) = blobs w \<and>
   docs (snd (post_favorites orc req_body w)) ''cookbooks'' = docs w ''cookbooks'' \<and>
   (\<exists>evs. events (snd (post_favorites orc req_body w)) = events w @ evs)"
proof (cases req_body)
  case None
  then show ?thesis by (simp add: favorites_no_body)
next
  case (Some b)
  then show ?thesis using post_favorites_frame_parsed[of orc b w] by simp
qed

lemma listings_frame:
  "blobs (snd (get_favorites orc w)) = blobs w \<and> docs (snd (get_favorites orc w)) = docs w \<and>
   (\<exists>evs. events (snd (get_favorites orc w)) = events w @ evs)"
  "blobs (snd (get_cookbooks orc w)) = blobs w \<and> docs (snd (get_cookbooks orc w)) = docs w \<and>
   (\<exists>evs. events (snd (get_cookbooks orc w)) = events w @ evs)"
  by (cases "get_outcome orc"; simp add: list_ok list_fails)+

lemma frame_keeps_backed:
  assumes "records_backed w"
    and "blobs w' = blobs w \<and> docs w' ''cookbooks'' = docs w ''cookbooks'' \<and> (\<exists>evs. events w' = events w @ evs)"
  shows "records_backed w'"
proof -
  from assms(2) obtain evs where "events w' = events w @ evs" by blast
  then show ?thesis
    using assms by (intro records_backed_step[OF assms(1), where new = "[]" and evs = evs]) simp_all
qed

lemma handle_keeps_backed:
  assumes "records_backed w"
  shows "records_backed (snd (handle rt orc req w))"
proof (cases req)
  case (PostGeneratePlan b)
  then show ?thesis using frame_keeps_backed[OF assms] generate_plan_frame[of rt orc b w] by simp
next
  case (PostFavorites b)
  then show ?thesis using frame_keeps_backed[OF assms] post_favorites_frame[of orc b w] by simp
next
  case GetFavorites
  then show ?thesis using frame_keeps_backed[OF assms] listings_frame(1)[of orc w] by simp
next
  case (PostUploadCookbook f)
  then show ?thesis using upload_cookbook_keeps_backed[OF assms] by simp
next
  case GetCookbooks
  then show ?thesis using frame_keeps_backed[OF assms] listings_frame(2)[of orc w] by simp
qed

lemma serve_Cons:
  "serve rt ((orc, req) # rest) w =
     (fst (handle rt orc req w) # fst (serve rt rest (snd (handle rt orc req w))),
      snd (serve rt rest (snd (handle rt orc req w))))"
  by (simp split: prod.splits)

lemma serve_keeps_backed:
  "records_backed w \<Longrightarrow> records_backed (snd (serve rt steps w))"
proof (induction steps arbitrary: w)
  case Nil
  then show ?case by simp
next
  case (Cons step steps)
  obtain orc req where step: "step = (orc, req)" by (cases step)
  have "records_backed (snd (handle rt orc req w))"
    using Cons.prems by (rule handle_keeps_backed)
  then have "records_backed (snd (serve rt steps (snd (handle rt orc req w))))"
    by (rule Cons.IH)
  then show ?case
    by (simp only: step serve_Cons snd_conv)
qed

lemma init_world_backed: "records_backed init_world"
  by (simp add: records_backed_def init_world_def)

lemma upload_record_after_blob:
  assumes "new_events w (snd (upload_cookbook orc f w)) = pre @ External (AddDoc col d) r # post"
  shows "\<exists>k data ct. pre = [External (UploadBytes k data ct) None] \<and> col = ''cookbooks'' \<and>
           map_of d ''storagePath'' = Some (Str k)"
proof (cases f)
  case None
  then show ?thesis using assms by (simp add: upload_none new_events_def)
next
  case (Some upl)
  show ?thesis
  proof (cases "upload_outcome orc")
    case blob_fails: (Some e)
    show ?thesis
      using assms upload_blob_fails(4)[OF blob_fails, of upl w] Some
      by (auto simp add: new_events_def Cons_eq_append_conv)
  next
    case blob_ok: None
    show ?thesis
    proof (cases "add_outcome orc")
      case (Inl e)
      show ?thesis
        using assms upload_record_fails(4)[OF blob_ok Inl, of upl w] Some
        by (auto simp add: new_events_def Cons_eq_append_conv)
    next
      case (Inr i)
      show ?thesis
        using assms upload_ok(4)[OF blob_ok Inr, of upl w] Some
        by (auto simp add: new_events_def Cons_eq_append_conv)
    qed
  qed
qed

section \<open>Saves and the listing of favorites\<close>

lemma save_answers_200_parsed:
  assumes "status (fst (post_favorites orc (Some b) w)) = 200"
  shows "\<exists>i. fst (post_favorites orc (Some b) w) =
              \<lparr>status = 200, json = Obj [(''success'', Bool True), (''id'', Str i)]\<rparr> \<and>
            docs (snd (post_favorites orc (Some b) w)) ''favorites'' = docs w ''favorites'' @
              [(i, [(''createdAt'', Date (new_Date orc)), (''content'', property b ''mealPlanMarkdown'')])]"
proof (cases "ToBoolean (property b ''mealPlanMarkdown'')")
  case False
  then show ?thesis using assms by (simp add: favorites_falsy)
next
  case True
  show ?thesis
  proof (cases "add_outcome orc")
    case (Inl e)
    then show ?thesis using assms by (simp add: favorites_store_fails(1)[OF True])
  next
    case (Inr i)
    then show ?thesis by (simp add: favorites_ok[OF True])
  qed
qed

lemma save_answers_200:
  assumes "status (fst (post_favorites orc req_body w)) = 200"
  shows "\<exists>i. fst (post_favorites orc req_body w) =
              \<lparr>status = 200, json = Obj [(''success'', Bool True), (''id'', Str i)]\<rparr> \<and>
            docs (snd (post_favorites orc req_body w)) ''favorites'' = docs w ''favorites'' @
              [(i, [(''createdAt'', Date (new_Date orc)), (''content'', saved_content req_body)])]"
proof (cases req_body)
  case None
  then show ?thesis using assms by (simp add: favorites_no_body)
next
  case (Some b)
  then show ?thesis using assms save_answers_200_parsed[of orc b w] by (simp add: saved_content_def)
qed

lemma entry_of_favorite:
  "entry (i, [(''createdAt'', t), (''content'', v)]) = Obj [(''id'', Str i), (''createdAt'', t), (''content'', v)]"
  by (simp add: entry_def spread_def)

lemma saves_listed:
  assumes "serve rt (map (apsnd PostFavorites) saves) w = (ress, w')"
    and "\<forall>res \<in> set ress. status res = 200"
  shows "length ress = length saves \<and>
         map entry (docs w' ''favorites'') =
           map entry (docs w ''favorites'') @ map saved_entry (zip saves ress)"
  using assms
proof (induction saves arbitrary: w ress)
  case Nil
  then show ?case by auto
next
  case (Cons save saves)
  obtain orc b where save: "save = (orc, b)" by (cases save)
  let ?w1 = "snd (post_favorites orc b w)"
  let ?r1 = "fst (post_favorites orc b w)"
  obtain rest where rest: "serve rt (map (apsnd PostFavorites) saves) ?w1 = (rest, w')"
    and ress: "ress = ?r1 # rest"
    using Cons.prems(1) by (cases "serve rt (map (apsnd PostFavorites) saves) ?w1") (auto simp add: save serve_Cons simp del: serve.simps)
  have "status ?r1 = 200" and all: "\<forall>res \<in> set rest. status res = 200"
    using Cons.prems(2) ress by simp_all
  then obtain i where r1: "?r1 = \<lparr>status = 200, json = Obj [(''success'', Bool True), (''id'', Str i)]\<rparr>"
    and d1: "docs ?w1 ''favorites'' = docs w ''favorites'' @
              [(i, [(''createdAt'', Date (new_Date orc)), (''content'', saved_content b)])]"
    using save_answers_200 by blast
  have ih: "length rest = length saves \<and>
         map entry (docs w' ''favorites'') =
           map entry (docs ?w1 ''favorites'') @ map saved_entry (zip saves rest)"
    using rest all by (rule Cons.IH)
  have "saved_entry (save, ?r1) =
      entry (i, [(''createdAt'', Date (new_Date orc)), (''content'', saved_content b)])"
    by (simp add: saved_entry_def save r1 entry_of_favorite)
  then show ?case
    using ih d1 ress by simp
qed

section \<open>The decimal numeral of an integer\<close>

text \<open>
  \<open>show_int t\<close> is a decimal numeral whose value is \<open>t\<close>, and it is the only string whose
  decimal value is \<open>t\<close>.
\<close>

lemma digit_at:
  assumes "n < 10"
  shows "is_digit (''0123456789'' ! n)" and "digit_value (''0123456789'' ! n) = n"
    and "(''0123456789'' ! n = CHR ''0'') = (n = 0)"
proof -
  from assms have "n \<in> {0, 1, 2, 3, 4, 5, 6, 7, 8, 9}" by auto
  then show "is_digit (''0123456789'' ! n)" and "digit_value (''0123456789'' ! n) = n"
    and "(''0123456789'' ! n = CHR ''0'') = (n = 0)"
    by (auto simp add: is_digit_def digit_value_def)
qed

lemma digit_char:
  assumes "is_digit c"
  shows "digit_value c < 10" and "''0123456789'' ! digit_value c = c"
  using assms by (auto simp add: is_digit_def digit_value_def)

lemma digits_value_snoc: "digits_value (ds @ [c]) = 10 * digits_value ds + digit_value c"
  by (simp add: digits_value_def)

lemma show_nat_digits:
  "show_nat n \<noteq> [] \<and> list_all is_digit (show_nat n) \<and> digits_value (show_nat n) = n \<and>
   (hd (show_nat n) = CHR ''0'') = (n = 0)"
proof (induction n rule: show_nat.induct)
  case (1 n)
  show ?case
  proof (cases "n < 10")
    case True
    then show ?thesis
      by (simp add: show_nat.simps[of n] digit_at digits_value_def)
  next
    case False
    then have ih: "show_nat (n div 10) \<noteq> [] \<and> list_all is_digit (show_nat (n div 10)) \<and>
        digits_value (show_nat (n div 10)) = n div 10 \<and>
        (hd (show_nat (n div 10)) = CHR ''0'') = (n div 10 = 0)"
      by (rule "1.IH")
    have m: "n mod 10 < 10" by simp
    from False have "n div 10 \<noteq> 0" by simp
    then show ?thesis
      using ih False digit_at(1,2)[OF m]
      by (simp add: show_nat.simps[of n] digits_value_snoc)
  qed
qed


lemma show_nat_0: "show_nat 0 = ''0''"
  by (simp add: show_nat.simps[of 0])

lemma show_nat_of_digits:
  assumes "ds \<noteq> []" and "list_all is_digit ds" and "hd ds \<noteq> CHR ''0''"
  shows "show_nat (digits_value ds) = ds \<and> 0 < digits_value ds"
  using assms
proof (induction ds rule: rev_nonempty_induct)
  case (single c)
  then have c: "is_digit c" "c \<noteq> CHR ''0''" by simp_all
  have "digit_value c \<noteq> 0"
    using digit_at(3)[OF digit_char(1)[OF c(1)]] digit_char(2)[OF c(1)] c(2) by simp
  then show ?case
    using digit_char[OF c(1)] by (simp add: digits_value_def show_nat.simps[of "digit_value c"])
next
  case (snoc c ds)
  then have c: "is_digit c" and ih: "show_nat (digits_value ds) = ds" "0 < digits_value ds"
    by simp_all
  let ?n = "10 * digits_value ds + digit_value c"
  have d: "digit_value c < 10" using c by (rule digit_char(1))
  have "\<not> ?n < 10" using ih(2) by simp
  moreover have "?n div 10 = digits_value ds" "?n mod 10 = digit_value c"
    using d by simp_all
  ultimately have "show_nat ?n = ds @ [c]"
    using ih(1) digit_char(2)[OF c] by (simp add: show_nat.simps[of ?n])
  then show ?case
    using ih(2) by (simp add: digits_value_snoc)
qed

lemma show_nat_of_numeral:
  assumes "numeral_digits ds"
  shows "show_nat (digits_value ds) = ds"
proof (cases "ds = ''0''")
  case True
  then show ?thesis by (simp add: digits_value_def digit_value_def show_nat_0)
next
  case False
  then show ?thesis
    using assms show_nat_of_digits[of ds] by (simp add: numeral_digits_def)
qed

lemma numeral_show_nat: "numeral_digits (show_nat n)"
proof (cases "n = 0")
  case True
  then show ?thesis by (simp add: show_nat_0 numeral_digits_def is_digit_def)
next
  case False
  then show ?thesis using show_nat_digits[of n] by (simp add: numeral_digits_def)
qed

lemma decimal_value_show_int: "decimal_value (show_int t) = Some t"
proof (cases "t < 0")
  case True
  let ?ds = "show_nat (nat (- t))"
  have "nat (- t) \<noteq> 0" using True by simp
  then have "hd ?ds \<noteq> CHR ''0''" using show_nat_digits[of "nat (- t)"] by simp
  then have "?ds \<noteq> ''0''" by auto
  then show ?thesis
    using True numeral_show_nat[of "nat (- t)"] show_nat_digits[of "nat (- t)"]
    by (simp add: show_int_def decimal_value_def)
next
  case False
  let ?s = "show_nat (nat t)"
  obtain c ds where s: "?s = c # ds"
    using show_nat_digits[of "nat t"] by (cases ?s) auto
  then have "is_digit c" using show_nat_digits[of "nat t"] by simp
  then have "c \<noteq> CHR ''-''" by (auto simp add: is_digit_def)
  then show ?thesis
    using False s numeral_show_nat[of "nat t"] show_nat_digits[of "nat t"]
    by (simp add: show_int_def decimal_value_def)
qed

lemma decimal_value_only_show_int:
  assumes "decimal_value s = Some t"
  shows "s = show_int t"
proof (cases s)
  case Nil
  then show ?thesis using assms by (simp add: decimal_value_def)
next
  case (Cons c ds)
  show ?thesis
  proof (cases "c = CHR ''-''")
    case True
    then have n: "numeral_digits ds" "ds \<noteq> ''0''" and t: "t = - int (digits_value ds)"
      using assms Cons by (auto simp add: decimal_value_def split: if_splits)
    then have "0 < digits_value ds"
      using show_nat_of_digits[of ds] by (simp add: numeral_digits_def)
    then show ?thesis
      using t True Cons show_nat_of_numeral[OF n(1)] by (simp add: show_int_def)
  next
    case False
    then have n: "numeral_digits s" and t: "t = int (digits_value s)"
      using assms Cons by (auto simp add: decimal_value_def split: if_splits)
    then show ?thesis
      using show_nat_of_numeral[OF n] by (simp add: show_int_def)
  qed
qed

lemma decimal_value_iff: "decimal_value s = Some t \<longleftrightarrow> s = show_int t"
  using decimal_value_show_int decimal_value_only_show_int by blast

section \<open>The claims\<close>

text \<open>
  C1. When the four fields of the body of \<open>/generate-plan\<close> are strings, the first thing
  the handler does outside is to call the generation service with the prompt, and the prompt
  is the template literal with the four strings in its placeholders: the template and each of
  the three fields are substrings of it, character for character.
\<close>

theorem generate_plan_prompt_verbatim:
  assumes "b ''template'' = Some (Str t)" and "b ''cookbook'' = Some (Str c)"
    and "b ''dietaryNeeds'' = Some (Str d)" and "b ''specialRequests'' = Some (Str s)"
  shows "take 1 (new_events w (snd (generate_plan rt orc (Some b) w))) =
           [External (GenerateContent (prompt_text t c d s)) (thrown (gen_outcome orc (prompt_text t c d s)))]
       \<and> sublist t (prompt_text t c d s) \<and> sublist c (prompt_text t c d s)
       \<and> sublist d (prompt_text t c d s) \<and> sublist s (prompt_text t c d s)"
proof -
  have "prompt rt (property b ''template'') (property b ''cookbook'') (property b ''dietaryNeeds'')
          (property b ''specialRequests'') = Inr (prompt_text t c d s)"
    using assms by (simp add: prompt_def property_def)
  then have "take 1 (new_events w (snd (generate_plan rt orc (Some b) w))) =
           [External (GenerateContent (prompt_text t c d s)) (thrown (gen_outcome orc (prompt_text t c d s)))]"
    by (rule plan_first_event)
  then show ?thesis
    by (simp add: prompt_text_template prompt_text_cookbook prompt_text_dietaryNeeds
      prompt_text_specialRequests)
qed

text \<open>
  The hypotheses of C1 hold of a body whose special requests contain angle brackets and
  double quotes, which reach the prompt unescaped.
\<close>

theorem generate_plan_prompt_verbatim_witness:
  "string_body ''template'' = Some (Str ''# Monday'') \<and>
   string_body ''cookbook'' = Some (Str ''Joy of Cooking'') \<and>
   string_body ''dietaryNeeds'' = Some (Str ''vegan'') \<and>
   string_body ''specialRequests'' = Some (Str ''<no> \"nuts\"'') \<and>
   take 1 (new_events init_world (snd (generate_plan example_runtime all_succeed (Some string_body) init_world))) =
     [External (GenerateContent (prompt_text ''# Monday'' ''Joy of Cooking'' ''vegan'' ''<no> \"nuts\"'')) None] \<and>
   sublist ''# Monday'' (prompt_text ''# Monday'' ''Joy of Cooking'' ''vegan'' ''<no> \"nuts\"'') \<and>
   sublist ''Joy of Cooking'' (prompt_text ''# Monday'' ''Joy of Cooking'' ''vegan'' ''<no> \"nuts\"'') \<and>
   sublist ''vegan'' (prompt_text ''# Monday'' ''Joy of Cooking'' ''vegan'' ''<no> \"nuts\"'') \<and>
   sublist ''<no> \"nuts\"'' (prompt_text ''# Monday'' ''Joy of Cooking'' ''vegan'' ''<no> \"nuts\"'')"
proof -
  have h: "string_body ''template'' = Some (Str ''# Monday'')"
    "string_body ''cookbook'' = Some (Str ''Joy of Cooking'')"
    "string_body ''dietaryNeeds'' = Some (Str ''vegan'')"
    "string_body ''specialRequests'' = Some (Str ''<no> \"nuts\"'')"
    by (simp_all add: string_body_def)
  show ?thesis
    using h generate_plan_prompt_verbatim [where b = string_body and rt = example_runtime and orc = all_succeed
        and w = init_world, OF h]
    by (simp add: all_succeed_def thrown_def)
qed




text \<open>
  C6. When the request carries no file under \<open>cookbookFile\<close> (\<open>req.file\<close> is undefined),
  \<open>/upload-cookbook\<close> answers 400 with \<open>{success: false, message}\<close> and leaves the stores
  and the log as they were: neither the blob store nor the document store is written.
\<close>

theorem upload_cookbook_no_file:
  "upload_cookbook orc None w =
     (\<lparr>status = 400, json = Obj [(''success'', Bool False), (''message'', Str ''No file uploaded.'')]\<rparr>, w)"
  by (rule upload_none)

text \<open>
  C8. When \<open>mealPlanMarkdown\<close> is a non-empty string \<open>m\<close>, \<open>POST /favorites\<close> makes exactly
  one external call, an \<open>addDoc\<close> to the collection \<open>favorites\<close> of a document whose
  \<open>content\<close> is \<open>m\<close> and whose \<open>createdAt\<close> is the date of the request; and when the store
  answers with the id \<open>i\<close> it generated, the collection has gained exactly that document
  under \<open>i\<close>, and the response is \<open>{success: true, id: i}\<close> with status 200.
\<close>

theorem post_favorites_saves:
  assumes "b ''mealPlanMarkdown'' = Some (Str m)" and "m \<noteq> []"
  shows "external_calls (new_events w (snd (post_favorites orc (Some b) w))) =
           [(AddDoc ''favorites'' [(''createdAt'', Date (new_Date orc)), (''content'', Str m)],
             thrown (add_outcome orc))]
       \<and> (\<forall>i. add_outcome orc = Inr i \<longrightarrow>
            fst (post_favorites orc (Some b) w) =
              \<lparr>status = 200, json = Obj [(''success'', Bool True), (''id'', Str i)]\<rparr> \<and>
            docs (snd (post_favorites orc (Some b) w)) =
              (docs w)(''favorites'' := docs w ''favorites'' @
                 [(i, [(''createdAt'', Date (new_Date orc)), (''content'', Str m)])]))"
proof -
  have v: "property b ''mealPlanMarkdown'' = Str m"
    using assms by (simp add: property_def)
  then have t: "ToBoolean (property b ''mealPlanMarkdown'')"
    using assms by simp
  have calls: "external_calls (new_events w (snd (post_favorites orc (Some b) w))) =
           [(AddDoc ''favorites'' [(''createdAt'', Date (new_Date orc)), (''content'', Str m)],
             thrown (add_outcome orc))]"
  proof (cases "add_outcome orc")
    case (Inl e)
    show ?thesis
      using favorites_store_fails(4)[OF t Inl, of w] v Inl by (simp add: new_events_def thrown_def)
  next
    case (Inr i)
    show ?thesis
      using favorites_ok(4)[OF t Inr, of w] v Inr by (simp add: new_events_def thrown_def)
  qed
  have saved: "fst (post_favorites orc (Some b) w) =
              \<lparr>status = 200, json = Obj [(''success'', Bool True), (''id'', Str i)]\<rparr> \<and>
            docs (snd (post_favorites orc (Some b) w)) =
              (docs w)(''favorites'' := docs w ''favorites'' @
                 [(i, [(''createdAt'', Date (new_Date orc)), (''content'', Str m)])])"
    if "add_outcome orc = Inr i" for i
    using favorites_ok(1,2)[OF t that, of w] v by simp
  show ?thesis using calls saved by blast
qed

text \<open>
  The hypotheses of C8 hold of the body \<open>{"mealPlanMarkdown": "# Plan A"}\<close> and a store
  that answers \<open>doc1\<close>.
\<close>

theorem post_favorites_saves_witness:
  "plan_a_body ''mealPlanMarkdown'' = Some (Str ''# Plan A'') \<and> ''# Plan A'' \<noteq> [] \<and>
   add_outcome all_succeed = Inr ''doc1'' \<and>
   external_calls (new_events init_world (snd (post_favorites all_succeed (Some plan_a_body) init_world))) =
     [(AddDoc ''favorites'' [(''createdAt'', Date 1700000000007), (''content'', Str ''# Plan A'')], None)] \<and>
   fst (post_favorites all_succeed (Some plan_a_body) init_world) =
     \<lparr>status = 200, json = Obj [(''success'', Bool True), (''id'', Str ''doc1'')]\<rparr> \<and>
   docs (snd (post_favorites all_succeed (Some plan_a_body) init_world)) ''favorites'' =
     [(''doc1'', [(''createdAt'', Date 1700000000007), (''content'', Str ''# Plan A'')])]"
proof -
  have h: "plan_a_body ''mealPlanMarkdown'' = Some (Str ''# Plan A'')" "''# Plan A'' \<noteq> []"
    by (simp_all add: plan_a_body_def)
  have a: "add_outcome all_succeed = Inr ''doc1''"
    by (simp add: all_succeed_def)
  show ?thesis
    using h a post_favorites_saves [where b = plan_a_body and m = "''# Plan A''" and orc = all_succeed and w = init_world]
    by (simp add: all_succeed_def thrown_def init_world_def)
qed

text \<open>
  C10. \<open>POST /favorites\<close> answers 400 and changes nothing whenever the \<open>mealPlanMarkdown\<close>
  of the parsed body is falsy, and it makes an external call exactly when the value is truthy. The falsy values are
  \<open>undefined\<close> (the field is absent), \<open>null\<close>, \<open>false\<close>, the empty string, and the numbers
  \<open>+0\<close>, \<open>-0\<close> and \<open>NaN\<close>; the number \<open>0\<close> is one of them.
\<close>

theorem post_favorites_rejects_falsy:
  "(\<not> ToBoolean (property b ''mealPlanMarkdown'') \<longrightarrow>
      post_favorites orc (Some b) w =
        (\<lparr>status = 400, json = Obj [(''success'', Bool False), (''message'', Str ''No meal plan content provided.'')]\<rparr>, w))
   \<and> (external_calls (new_events w (snd (post_favorites orc (Some b) w))) \<noteq> [] \<longleftrightarrow>
        ToBoolean (property b ''mealPlanMarkdown''))
   \<and> (\<not> ToBoolean v \<longleftrightarrow>
        v = Undefined \<or> v = Null \<or> v = Bool False \<or> v = Str [] \<or>
        (\<exists>d. v = Num d \<and> (is_zero d \<or> is_NaN d)))
   \<and> is_zero 0"
proof -
  have reject: "post_favorites orc (Some b) w =
        (\<lparr>status = 400, json = Obj [(''success'', Bool False), (''message'', Str ''No meal plan content provided.'')]\<rparr>, w)"
    if "\<not> ToBoolean (property b ''mealPlanMarkdown'')"
    using that by (rule favorites_falsy)
  have reach: "external_calls (new_events w (snd (post_favorites orc (Some b) w))) \<noteq> [] \<longleftrightarrow>
        ToBoolean (property b ''mealPlanMarkdown'')"
  proof (cases "ToBoolean (property b ''mealPlanMarkdown'')")
    case False
    then show ?thesis using favorites_falsy[OF False, of orc w] by (simp add: new_events_def)
  next
    case True
    show ?thesis
    proof (cases "add_outcome orc")
      case (Inl e)
      show ?thesis using favorites_store_fails(4)[OF True Inl, of w] True by (simp add: new_events_def)
    next
      case (Inr i)
      show ?thesis using favorites_ok(4)[OF True Inr, of w] True by (simp add: new_events_def)
    qed
  qed
  have falsy: "\<not> ToBoolean v \<longleftrightarrow>
        v = Undefined \<or> v = Null \<or> v = Bool False \<or> v = Str [] \<or>
        (\<exists>d. v = Num d \<and> (is_zero d \<or> is_NaN d))"
    by (cases v) simp_all
  have "is_zero 0" by (simp add: is_zero_def)
  with reject reach falsy show ?thesis by blast
qed

text \<open>
  The hypothesis of C10 holds of the body \<open>{"mealPlanMarkdown": 0}\<close>.
\<close>

theorem post_favorites_rejects_falsy_witness:
  "\<not> ToBoolean (property zero_markdown_body ''mealPlanMarkdown'') \<and>
   post_favorites all_succeed (Some zero_markdown_body) init_world =
     (\<lparr>status = 400, json = Obj [(''success'', Bool False), (''message'', Str ''No meal plan content provided.'')]\<rparr>,
      init_world) \<and>
   external_calls (new_events init_world (snd (post_favorites all_succeed (Some zero_markdown_body) init_world))) = []"
proof -
  have h: "\<not> ToBoolean (property zero_markdown_body ''mealPlanMarkdown'')"
    by (simp add: zero_markdown_body_def property_def is_zero_def)
  show ?thesis
    using h post_favorites_rejects_falsy [of zero_markdown_body all_succeed init_world Null]
    by (simp add: new_events_def)
qed

text \<open>
  C4. When \<open>/upload-cookbook\<close> answers 200 for a file of original name \<open>n\<close> with
  \<open>Date.now()\<close> equal to \<open>t\<close>, its external calls are exactly two, both answered: one
  \<open>uploadBytes\<close> of the file's bytes with its content type at the key
  \<open>cookbooks/<t>_<n>\<close>, then one \<open>addDoc\<close> to \<open>cookbooks\<close> of a record whose \<open>name\<close> is
  \<open>n\<close> and whose \<open>storagePath\<close> is that key. The blob store changes at that key only, and
  the collection gains exactly that record. In the key, \<open><t>\<close> is the decimal numeral of
  \<open>t\<close>: the one string whose decimal value is \<open>t\<close>.
\<close>

theorem upload_cookbook_success:
  assumes "status (fst (upload_cookbook orc (Some upl) w)) = 200"
    and "originalname upl = n" and "Date_now orc = t"
  shows "external_calls (new_events w (snd (upload_cookbook orc (Some upl) w))) =
           [(UploadBytes (''cookbooks/'' @ show_int t @ ''_'' @ n) (buffer upl) (mimetype upl), None),
            (AddDoc ''cookbooks''
               [(''name'', Str n), (''storagePath'', Str (''cookbooks/'' @ show_int t @ ''_'' @ n)),
                (''uploadedAt'', Date (new_Date orc))], None)]
       \<and> blobs (snd (upload_cookbook orc (Some upl) w)) =
           (blobs w)(''cookbooks/'' @ show_int t @ ''_'' @ n \<mapsto> (buffer upl, mimetype upl))
       \<and> (\<forall>s. decimal_value s = Some t \<longleftrightarrow> s = show_int t)
       \<and> (\<exists>i. add_outcome orc = Inr i \<and>
            docs (snd (upload_cookbook orc (Some upl) w)) =
              (docs w)(''cookbooks'' := docs w ''cookbooks'' @
                 [(i, [(''name'', Str n), (''storagePath'', Str (''cookbooks/'' @ show_int t @ ''_'' @ n)),
                       (''uploadedAt'', Date (new_Date orc))])]))"
proof (cases "upload_outcome orc")
  case (Some e)
  then show ?thesis using assms(1) upload_blob_fails(1)[OF Some, of upl w] by simp
next
  case None
  show ?thesis
  proof (cases "add_outcome orc")
    case (Inl e)
    then show ?thesis using assms(1) upload_record_fails(1)[OF None Inl, of upl w] by simp
  next
    case (Inr i)
    show ?thesis
      using upload_ok(2,3,4)[OF None Inr, of upl w] assms(2,3) Inr
      by (simp add: new_events_def decimal_value_iff)
  qed
qed

text \<open>
  The hypotheses of C4 hold of \<open>soup.pdf\<close> uploaded at \<open>1700000000000\<close>: the key is
  \<open>cookbooks/1700000000000_soup.pdf\<close>.
\<close>

theorem upload_cookbook_success_witness:
  "status (fst (upload_cookbook all_succeed (Some soup_pdf) init_world)) = 200 \<and>
   originalname soup_pdf = ''soup.pdf'' \<and> Date_now all_succeed = 1700000000000 \<and>
   decimal_value ''1700000000000'' = Some 1700000000000 \<and>
   external_calls (new_events init_world (snd (upload_cookbook all_succeed (Some soup_pdf) init_world))) =
     [(UploadBytes ''cookbooks/1700000000000_soup.pdf'' [0x25, 0x50, 0x44, 0x46] ''application/pdf'', None),
      (AddDoc ''cookbooks''
         [(''name'', Str ''soup.pdf''), (''storagePath'', Str ''cookbooks/1700000000000_soup.pdf''),
          (''uploadedAt'', Date 1700000000007)], None)] \<and>
   blobs (snd (upload_cookbook all_succeed (Some soup_pdf) init_world)) =
     [''cookbooks/1700000000000_soup.pdf'' \<mapsto> ([0x25, 0x50, 0x44, 0x46], ''application/pdf'')] \<and>
   docs (snd (upload_cookbook all_succeed (Some soup_pdf) init_world)) ''cookbooks'' =
     [(''doc1'', [(''name'', Str ''soup.pdf''), (''storagePath'', Str ''cookbooks/1700000000000_soup.pdf''),
                  (''uploadedAt'', Date 1700000000007)])]"
proof -
  have h1: "status (fst (upload_cookbook all_succeed (Some soup_pdf) init_world)) = 200"
    using upload_ok(1)[of all_succeed "''doc1''" soup_pdf init_world] by (simp add: all_succeed_def)
  have h2: "originalname soup_pdf = ''soup.pdf''" by (simp add: soup_pdf_def)
  have h3: "Date_now all_succeed = 1700000000000" by (simp add: all_succeed_def)
  have k: "show_int 1700000000000 = ''1700000000000''"
    by (simp add: show_int_def show_nat.simps)
  have v: "decimal_value ''1700000000000'' = Some 1700000000000"
    by (simp add: decimal_value_def numeral_digits_def is_digit_def digits_value_def digit_value_def)
  show ?thesis
    using h1 h2 h3 v upload_cookbook_success [OF h1 h2 h3]
    by (simp add: k all_succeed_def soup_pdf_def init_world_def)
qed

text \<open>
  C5. On each of the five routes, when an external call of the request throws \<open>e\<close>, the
  response is 500 with \<open>{success: false, message}\<close>, the message being the fixed string of
  the route, in which \<open>e\<close> does not occur. The call that threw is the last external call of
  the request: it is not made again and no other call follows it; the calls before it all
  returned and are other calls.
\<close>

theorem external_failure_gives_500:
  assumes "External c (Some e) \<in> set (new_events w (snd (handle rt orc req w)))"
  shows "fst (handle rt orc req w) =
           \<lparr>status = 500, json = Obj [(''success'', Bool False), (''message'', Str (generic_message req))]\<rparr>
       \<and> external_calls (new_events w (snd (handle rt orc req w))) \<noteq> []
       \<and> last (external_calls (new_events w (snd (handle rt orc req w)))) = (c, Some e)
       \<and> (\<forall>x \<in> set (butlast (external_calls (new_events w (snd (handle rt orc req w))))).
             snd x = None \<and> fst x \<noteq> c)"
proof (cases req)
  case (PostGeneratePlan b)
  then show ?thesis using assms failure_generate_plan[of c e w rt orc b] by (simp add: generic_message_def)
next
  case (PostFavorites b)
  then show ?thesis using assms failure_post_favorites[of c e w orc b] by (simp add: generic_message_def)
next
  case GetFavorites
  then show ?thesis using assms failure_get_favorites[of c e w orc] by (simp add: generic_message_def)
next
  case (PostUploadCookbook f)
  then show ?thesis using assms failure_upload_cookbook[of c e w orc f] by (simp add: generic_message_def)
next
  case GetCookbooks
  then show ?thesis using assms failure_get_cookbooks[of c e w orc] by (simp add: generic_message_def)
qed

text \<open>
  The hypothesis of C5 holds of an upload whose blob write succeeds and whose metadata write
  throws.
\<close>

theorem external_failure_gives_500_witness:
  "External (AddDoc ''cookbooks''
      [(''name'', Str ''soup.pdf''), (''storagePath'', Str ''cookbooks/1700000000000_soup.pdf''),
       (''uploadedAt'', Date 1700000000007)]) (Some (ServiceError ''permission-denied''))
     \<in> set (new_events init_world
          (snd (handle example_runtime record_write_fails (PostUploadCookbook (Some soup_pdf)) init_world))) \<and>
   fst (handle example_runtime record_write_fails (PostUploadCookbook (Some soup_pdf)) init_world) =
     \<lparr>status = 500, json = Obj [(''success'', Bool False), (''message'', Str ''Failed to upload cookbook.'')]\<rparr> \<and>
   external_calls (new_events init_world
       (snd (handle example_runtime record_write_fails (PostUploadCookbook (Some soup_pdf)) init_world))) =
     [(UploadBytes ''cookbooks/1700000000000_soup.pdf'' [0x25, 0x50, 0x44, 0x46] ''application/pdf'', None),
      (AddDoc ''cookbooks''
         [(''name'', Str ''soup.pdf''), (''storagePath'', Str ''cookbooks/1700000000000_soup.pdf''),
          (''uploadedAt'', Date 1700000000007)], Some (ServiceError ''permission-denied''))]"
proof -
  have ev: "events (snd (upload_cookbook record_write_fails (Some soup_pdf) init_world)) =
     [External (UploadBytes ''cookbooks/1700000000000_soup.pdf'' [0x25, 0x50, 0x44, 0x46] ''application/pdf'') None,
      External (AddDoc ''cookbooks''
         [(''name'', Str ''soup.pdf''), (''storagePath'', Str ''cookbooks/1700000000000_soup.pdf''),
          (''uploadedAt'', Date 1700000000007)]) (Some (ServiceError ''permission-denied'')),
      ConsoleError ''Error uploading cookbook:'' (ServiceError ''permission-denied'')]"
    using upload_record_fails(4)[of record_write_fails "ServiceError ''permission-denied''" soup_pdf init_world]
    by (simp add: record_write_fails_def soup_pdf_def init_world_def show_int_def show_nat.simps)
  have h: "External (AddDoc ''cookbooks''
      [(''name'', Str ''soup.pdf''), (''storagePath'', Str ''cookbooks/1700000000000_soup.pdf''),
       (''uploadedAt'', Date 1700000000007)]) (Some (ServiceError ''permission-denied''))
     \<in> set (new_events init_world
          (snd (handle example_runtime record_write_fails (PostUploadCookbook (Some soup_pdf)) init_world)))"
    using ev by (simp add: new_events_def init_world_def)
  show ?thesis
    using h ev external_failure_gives_500 [OF h]
    by (simp add: new_events_def init_world_def generic_message_def)
qed

text \<open>
  C9, as amended. When the body of \<open>/generate-plan\<close> was parsed and the conversion to a
  string of each of its four fields succeeds (an absent field is \<open>undefined\<close>, whose
  conversion succeeds), the handler validates nothing: its first external call is the
  generation service with the prompt, and the placeholder of every absent field holds the
  string \<open>undefined\<close>.
\<close>

theorem generate_plan_absent_fields:
  assumes "ToString rt (property b ''template'') = Inr t"
    and "ToString rt (property b ''cookbook'') = Inr c"
    and "ToString rt (property b ''dietaryNeeds'') = Inr d"
    and "ToString rt (property b ''specialRequests'') = Inr s"
  shows "take 1 (new_events w (snd (generate_plan rt orc (Some b) w))) =
           [External (GenerateContent (prompt_text t c d s)) (thrown (gen_outcome orc (prompt_text t c d s)))]
       \<and> (b ''template'' = None \<longrightarrow> t = ''undefined'')
       \<and> (b ''cookbook'' = None \<longrightarrow> c = ''undefined'')
       \<and> (b ''dietaryNeeds'' = None \<longrightarrow> d = ''undefined'')
       \<and> (b ''specialRequests'' = None \<longrightarrow> s = ''undefined'')
       \<and> sublist t (prompt_text t c d s) \<and> sublist c (prompt_text t c d s)
       \<and> sublist d (prompt_text t c d s) \<and> sublist s (prompt_text t c d s)"
proof -
  have "prompt rt (property b ''template'') (property b ''cookbook'') (property b ''dietaryNeeds'')
          (property b ''specialRequests'') = Inr (prompt_text t c d s)"
    using assms by (simp add: prompt_def)
  then have first: "take 1 (new_events w (snd (generate_plan rt orc (Some b) w))) =
           [External (GenerateContent (prompt_text t c d s)) (thrown (gen_outcome orc (prompt_text t c d s)))]"
    by (rule plan_first_event)
  have absent: "ToString rt (property b k) = Inr x \<Longrightarrow> b k = None \<Longrightarrow> x = ''undefined''" for k x
    by (simp add: property_def)
  show ?thesis
    using first absent[OF assms(1)] absent[OF assms(2)] absent[OF assms(3)] absent[OF assms(4)]
    by (simp add: prompt_text_template prompt_text_cookbook prompt_text_dietaryNeeds
      prompt_text_specialRequests)
qed

text \<open>
  The hypotheses of the amended C9 hold of a body without \<open>template\<close> and
  \<open>specialRequests\<close> and with \<open>dietaryNeeds\<close> null.
\<close>

theorem generate_plan_absent_fields_witness:
  "ToString example_runtime (property sparse_body ''template'') = Inr ''undefined'' \<and>
   ToString example_runtime (property sparse_body ''cookbook'') = Inr ''Joy of Cooking'' \<and>
   ToString example_runtime (property sparse_body ''dietaryNeeds'') = Inr ''null'' \<and>
   ToString example_runtime (property sparse_body ''specialRequests'') = Inr ''undefined'' \<and>
   sparse_body ''template'' = None \<and> sparse_body ''specialRequests'' = None \<and>
   take 1 (new_events init_world (snd (generate_plan example_runtime all_succeed (Some sparse_body) init_world))) =
     [External (GenerateContent (prompt_text ''undefined'' ''Joy of Cooking'' ''null'' ''undefined'')) None] \<and>
   sublist ''undefined'' (prompt_text ''undefined'' ''Joy of Cooking'' ''null'' ''undefined'')"
proof -
  have h: "ToString example_runtime (property sparse_body ''template'') = Inr ''undefined''"
    "ToString example_runtime (property sparse_body ''cookbook'') = Inr ''Joy of Cooking''"
    "ToString example_runtime (property sparse_body ''dietaryNeeds'') = Inr ''null''"
    "ToString example_runtime (property sparse_body ''specialRequests'') = Inr ''undefined''"
    by (simp_all add: sparse_body_def property_def)
  have a: "sparse_body ''template'' = None" "sparse_body ''specialRequests'' = None"
    by (simp_all add: sparse_body_def)
  show ?thesis
    using h a generate_plan_absent_fields [where b = sparse_body and rt = example_runtime
        and orc = all_succeed and w = init_world, OF h]
    by (simp add: all_succeed_def thrown_def)
qed

text \<open>
  C9 as stated fails, in two ways. In the body \<open>{"cookbook": {"toString": null}}\<close> three
  fields are absent, and the conversion of \<open>cookbook\<close> throws a \<open>TypeError\<close> while the prompt
  is built. In a request for which no body was parsed, all four fields are absent, and
  destructuring \<open>req.body\<close> throws a \<open>TypeError\<close>. Both times the handler answers 500 and
  never calls the generation service.
\<close>

theorem generate_plan_absent_fields_counterexample:
  "toString_body ''template'' = None \<and>
   toString_body ''dietaryNeeds'' = None \<and>
   toString_body ''specialRequests'' = None \<and>
   fst (generate_plan example_runtime all_succeed (Some toString_body) init_world) =
     \<lparr>status = 500, json = Obj [(''success'', Bool False), (''message'', Str ''Failed to generate meal plan.'')]\<rparr> \<and>
   new_events init_world (snd (generate_plan example_runtime all_succeed (Some toString_body) init_world)) =
     [ConsoleError ''Error generating plan:'' TypeError] \<and>
   fst (generate_plan example_runtime all_succeed None init_world) =
     \<lparr>status = 500, json = Obj [(''success'', Bool False), (''message'', Str ''Failed to generate meal plan.'')]\<rparr> \<and>
   new_events init_world (snd (generate_plan example_runtime all_succeed None init_world)) =
     [ConsoleError ''Error generating plan:'' TypeError]"
proof -
  have p: "prompt example_runtime (property toString_body ''template'') (property toString_body ''cookbook'')
      (property toString_body ''dietaryNeeds'') (property toString_body ''specialRequests'') = Inl TypeError"
    by (simp add: prompt_def property_def toString_body_def)
  show ?thesis
    using plan_prompt_throws(1,4)[OF p, of all_succeed init_world]
      plan_no_body(1,4)[of example_runtime all_succeed init_world]
    by (simp add: toString_body_def new_events_def init_world_def)
qed

text \<open>
  C2. Write, then record. In every state reached from the empty stores by serving requests,
  every record of \<open>cookbooks\<close> is backed: its \<open>storagePath\<close> is the path of a blob that the
  store holds and that an \<open>uploadBytes\<close> wrote successfully. In every execution of
  \<open>/upload-cookbook\<close>, an \<open>addDoc\<close> comes right after the \<open>uploadBytes\<close> of the path it
  records, and that \<open>uploadBytes\<close> returned. When the blob write throws, no record is
  written (the stores are unchanged). When the blob write returns and the metadata write
  throws, the blob is in the store and the collections are unchanged: the blob is left
  without a record.
\<close>

theorem upload_writes_blob_before_record:
  "records_backed (snd (serve rt steps init_world))
   \<and> (\<forall>pre col d r post.
         new_events w (snd (upload_cookbook orc f w)) = pre @ External (AddDoc col d) r # post \<longrightarrow>
         (\<exists>k data ct. pre = [External (UploadBytes k data ct) None] \<and> col = ''cookbooks'' \<and>
            map_of d ''storagePath'' = Some (Str k)))
   \<and> (\<forall>e. upload_outcome orc = Some e \<longrightarrow>
         docs (snd (upload_cookbook orc f w)) = docs w \<and> blobs (snd (upload_cookbook orc f w)) = blobs w)
   \<and> (\<forall>e upl. f = Some upl \<and> upload_outcome orc = None \<and> add_outcome orc = Inl e \<longrightarrow>
         docs (snd (upload_cookbook orc f w)) = docs w \<and>
         blobs (snd (upload_cookbook orc f w))
           (''cookbooks/'' @ show_int (Date_now orc) @ ''_'' @ originalname upl) =
           Some (buffer upl, mimetype upl))"
proof -
  have reachable: "records_backed (snd (serve rt steps init_world))"
    using init_world_backed by (rule serve_keeps_backed)
  have ordered: "\<exists>k data ct. pre = [External (UploadBytes k data ct) None] \<and> col = ''cookbooks'' \<and>
            map_of d ''storagePath'' = Some (Str k)"
    if "new_events w (snd (upload_cookbook orc f w)) = pre @ External (AddDoc col d) r # post"
    for pre col d r post
    using that by (rule upload_record_after_blob)
  have no_record: "docs (snd (upload_cookbook orc f w)) = docs w \<and> blobs (snd (upload_cookbook orc f w)) = blobs w"
    if "upload_outcome orc = Some e" for e
    using that by (cases f) (simp_all add: upload_none upload_blob_fails)
  have orphan: "docs (snd (upload_cookbook orc f w)) = docs w \<and>
         blobs (snd (upload_cookbook orc f w))
           (''cookbooks/'' @ show_int (Date_now orc) @ ''_'' @ originalname upl) =
           Some (buffer upl, mimetype upl)"
    if "f = Some upl \<and> upload_outcome orc = None \<and> add_outcome orc = Inl e" for e upl
    using that by (simp add: upload_record_fails)
  show ?thesis
    using reachable ordered no_record orphan by blast
qed

text \<open>
  C2 at concrete inputs: a successful upload from the empty stores leaves one backed record;
  a failed blob write leaves the stores empty; a failed metadata write leaves the blob
  \<open>cookbooks/1700000000000_soup.pdf\<close> and no record.
\<close>

theorem upload_writes_blob_before_record_witness:
  "docs (snd (serve example_runtime [(all_succeed, PostUploadCookbook (Some soup_pdf))] init_world)) ''cookbooks'' =
     [(''doc1'', [(''name'', Str ''soup.pdf''), (''storagePath'', Str ''cookbooks/1700000000000_soup.pdf''),
                  (''uploadedAt'', Date 1700000000007)])] \<and>
   records_backed (snd (serve example_runtime [(all_succeed, PostUploadCookbook (Some soup_pdf))] init_world)) \<and>
   new_events init_world (snd (upload_cookbook all_succeed (Some soup_pdf) init_world)) =
     [External (UploadBytes ''cookbooks/1700000000000_soup.pdf'' [0x25, 0x50, 0x44, 0x46] ''application/pdf'') None] @
     External (AddDoc ''cookbooks''
       [(''name'', Str ''soup.pdf''), (''storagePath'', Str ''cookbooks/1700000000000_soup.pdf''),
        (''uploadedAt'', Date 1700000000007)]) None # [] \<and>
   upload_outcome blob_write_fails = Some (ServiceError ''storage/unauthorized'') \<and>
   docs (snd (upload_cookbook blob_write_fails (Some soup_pdf) init_world)) = docs init_world \<and>
   blobs (snd (upload_cookbook blob_write_fails (Some soup_pdf) init_world)) = blobs init_world \<and>
   upload_outcome record_write_fails = None \<and>
   add_outcome record_write_fails = Inl (ServiceError ''permission-denied'') \<and>
   docs (snd (upload_cookbook record_write_fails (Some soup_pdf) init_world)) ''cookbooks'' = [] \<and>
   blobs (snd (upload_cookbook record_write_fails (Some soup_pdf) init_world))
     ''cookbooks/1700000000000_soup.pdf'' = Some ([0x25, 0x50, 0x44, 0x46], ''application/pdf'')"
proof -
  have k: "show_int 1700000000000 = ''1700000000000''"
    by (simp add: show_int_def show_nat.simps)
  have ok: "upload_outcome all_succeed = None" "add_outcome all_succeed = Inr ''doc1''"
    by (simp_all add: all_succeed_def)
  have run: "docs (snd (serve example_runtime [(all_succeed, PostUploadCookbook (Some soup_pdf))] init_world))
      ''cookbooks'' =
     [(''doc1'', [(''name'', Str ''soup.pdf''), (''storagePath'', Str ''cookbooks/1700000000000_soup.pdf''),
                  (''uploadedAt'', Date 1700000000007)])]"
  proof -
    have "docs (snd (upload_cookbook all_succeed (Some soup_pdf) init_world)) ''cookbooks'' =
       [(''doc1'', [(''name'', Str ''soup.pdf''), (''storagePath'', Str ''cookbooks/1700000000000_soup.pdf''),
                    (''uploadedAt'', Date 1700000000007)])]"
      using upload_ok(2)[OF ok, of soup_pdf init_world]
      by (simp add: k all_succeed_def soup_pdf_def init_world_def)
    then show ?thesis
      by (simp add: serve_Cons del: serve.simps(2))
  qed
  have evs: "new_events init_world (snd (upload_cookbook all_succeed (Some soup_pdf) init_world)) =
     [External (UploadBytes ''cookbooks/1700000000000_soup.pdf'' [0x25, 0x50, 0x44, 0x46] ''application/pdf'') None] @
     External (AddDoc ''cookbooks''
       [(''name'', Str ''soup.pdf''), (''storagePath'', Str ''cookbooks/1700000000000_soup.pdf''),
        (''uploadedAt'', Date 1700000000007)]) None # []"
    using upload_ok(4)[OF ok, of soup_pdf init_world]
    by (simp add: new_events_def k all_succeed_def soup_pdf_def init_world_def)
  have bf: "upload_outcome blob_write_fails = Some (ServiceError ''storage/unauthorized'')"
    by (simp add: blob_write_fails_def)
  have rf: "Some soup_pdf = Some soup_pdf \<and> upload_outcome record_write_fails = None \<and>
      add_outcome record_write_fails = Inl (ServiceError ''permission-denied'')"
    by (simp add: record_write_fails_def)
  have t1: "records_backed (snd (serve example_runtime [(all_succeed, PostUploadCookbook (Some soup_pdf))] init_world))"
    using upload_writes_blob_before_record
      [of example_runtime "[(all_succeed, PostUploadCookbook (Some soup_pdf))]" init_world all_succeed None]
    by blast
  have t2: "docs (snd (upload_cookbook blob_write_fails (Some soup_pdf) init_world)) = docs init_world \<and>
      blobs (snd (upload_cookbook blob_write_fails (Some soup_pdf) init_world)) = blobs init_world"
    using bf upload_writes_blob_before_record [of example_runtime "[]" init_world blob_write_fails "Some soup_pdf"]
    by blast
  have t3: "docs (snd (upload_cookbook record_write_fails (Some soup_pdf) init_world)) = docs init_world \<and>
      blobs (snd (upload_cookbook record_write_fails (Some soup_pdf) init_world))
        (''cookbooks/'' @ show_int (Date_now record_write_fails) @ ''_'' @ originalname soup_pdf) =
        Some (buffer soup_pdf, mimetype soup_pdf)"
    using rf upload_writes_blob_before_record [of example_runtime "[]" init_world record_write_fails "Some soup_pdf"]
    by blast
  show ?thesis
    using run evs bf rf t1 t2 t3
    by (simp add: k record_write_fails_def soup_pdf_def init_world_def)
qed

text \<open>
  C7. Starting from a state whose collection \<open>favorites\<close> is empty, after a sequence of
  saves that all answered 200, a listing whose \<open>getDocs\<close> returns answers 200 with one entry
  for every document of the collection; there are as many as saves; their ids are, up to
  order, the ids the saves answered; and the entries are, up to order, the saved plans, each
  with its id, date and content.
\<close>

theorem favorites_listed_after_saves:
  assumes "docs w ''favorites'' = []"
    and "serve rt (map (apsnd PostFavorites) saves) w = (ress, w')"
    and "\<forall>res \<in> set ress. status res = 200"
    and "get_outcome orc = None"
  shows "fst (get_favorites orc w') =
           \<lparr>status = 200,
            json = Obj [(''success'', Bool True), (''favorites'', Arr (map entry (docs w' ''favorites'')))]\<rparr>
       \<and> length (docs w' ''favorites'') = length saves
       \<and> mset (map (\<lambda>e. property_of e ''id'') (map entry (docs w' ''favorites''))) =
           mset (map (\<lambda>res. property_of (json res) ''id'') ress)
       \<and> mset (map entry (docs w' ''favorites'')) = mset (map saved_entry (zip saves ress))"
proof -
  have listed: "length ress = length saves"
    "map entry (docs w' ''favorites'') = map saved_entry (zip saves ress)"
    using saves_listed[OF assms(2,3)] assms(1) by simp_all
  have "length (map entry (docs w' ''favorites'')) = length saves"
    using listed by simp
  then have len: "length (docs w' ''favorites'') = length saves"
    by simp
  have "map (\<lambda>e. property_of e ''id'') (map saved_entry (zip saves ress)) =
        map (\<lambda>res. property_of (json res) ''id'') (map snd (zip saves ress))"
    by (simp add: saved_entry_def)
  also have "map snd (zip saves ress) = ress"
    using listed(1) by simp
  finally have ids: "map (\<lambda>e. property_of e ''id'') (map entry (docs w' ''favorites'')) =
        map (\<lambda>res. property_of (json res) ''id'') ress"
    using listed(2) by simp
  show ?thesis
    using list_ok(1)[OF assms(4), of w'] len ids listed(2) by simp
qed

text \<open>
  The hypotheses of C7 hold of two saves, answered \<open>doc1\<close> and \<open>doc2\<close>, from the empty
  stores.
\<close>

theorem favorites_listed_after_saves_witness:
  "docs init_world ''favorites'' = [] \<and>
   map status (fst (serve example_runtime
      (map (apsnd PostFavorites) [(all_succeed, Some plan_a_body), (second_save, Some plan_b_body)]) init_world)) = [200, 200] \<and>
   map (\<lambda>res. property_of (json res) ''id'') (fst (serve example_runtime
      (map (apsnd PostFavorites) [(all_succeed, Some plan_a_body), (second_save, Some plan_b_body)]) init_world)) =
     [Str ''doc1'', Str ''doc2''] \<and>
   get_outcome all_succeed = None \<and>
   fst (get_favorites all_succeed (snd (serve example_runtime
      (map (apsnd PostFavorites) [(all_succeed, Some plan_a_body), (second_save, Some plan_b_body)]) init_world))) =
     \<lparr>status = 200,
      json = Obj [(''success'', Bool True),
        (''favorites'', Arr
           [Obj [(''id'', Str ''doc1''), (''createdAt'', Date 1700000000007), (''content'', Str ''# Plan A'')],
            Obj [(''id'', Str ''doc2''), (''createdAt'', Date 1700000000107), (''content'', Str ''# Plan B'')]])]\<rparr>"
proof -
  let ?saves = "[(all_succeed, Some plan_a_body), (second_save, Some plan_b_body)]"
  let ?run = "serve example_runtime (map (apsnd PostFavorites) ?saves) init_world"
  have t: "ToBoolean (property plan_a_body ''mealPlanMarkdown'')" "ToBoolean (property plan_b_body ''mealPlanMarkdown'')"
    by (simp_all add: plan_a_body_def plan_b_body_def property_def)
  have a: "add_outcome all_succeed = Inr ''doc1''" "add_outcome second_save = Inr ''doc2''"
    by (simp_all add: all_succeed_def second_save_def)
  have run: "fst ?run =
      [\<lparr>status = 200, json = Obj [(''success'', Bool True), (''id'', Str ''doc1'')]\<rparr>,
       \<lparr>status = 200, json = Obj [(''success'', Bool True), (''id'', Str ''doc2'')]\<rparr>]"
    by (simp add: serve_Cons favorites_ok(1)[OF t(1) a(1)] favorites_ok(1)[OF t(2) a(2)] del: serve.simps(2))
  have h1: "docs init_world ''favorites'' = []"
    by (simp add: init_world_def)
  have h2: "?run = (fst ?run, snd ?run)"
    by simp
  have h3: "\<forall>res \<in> set (fst ?run). status res = 200"
    unfolding run by simp
  have h4: "get_outcome all_succeed = None"
    by (simp add: all_succeed_def)
  have listing: "fst (get_favorites all_succeed (snd ?run)) =
      \<lparr>status = 200,
       json = Obj [(''success'', Bool True), (''favorites'', Arr (map entry (docs (snd ?run) ''favorites'')))]\<rparr>"
    using favorites_listed_after_saves [OF h1 h2 h3 h4] by (rule conjunct1)
  have "map entry (docs (snd ?run) ''favorites'') = map saved_entry (zip ?saves (fst ?run))"
    using saves_listed [OF h2 h3] h1 by (simp only: map_append list.map append_Nil)
  then have entries: "map entry (docs (snd ?run) ''favorites'') =
      [Obj [(''id'', Str ''doc1''), (''createdAt'', Date 1700000000007), (''content'', Str ''# Plan A'')],
       Obj [(''id'', Str ''doc2''), (''createdAt'', Date 1700000000107), (''content'', Str ''# Plan B'')]]"
    unfolding run
    by (simp add: saved_entry_def saved_content_def all_succeed_def second_save_def plan_a_body_def
      plan_b_body_def property_def)
  show ?thesis
    unfolding listing entries run using h1 h4 by simp
qed

end
